theory Spec2Isabelle
  imports Main "HOL-Library.Sublist"
begin

section \<open>Redshift lineage extraction (lineage\_v2.py): data model\<close>

text \<open>
  The development embeds the class \<open>RedshiftSqlLineageV2\<close> of
  \<open>datahub/ingestion/source/redshift/lineage_v2.py\<close>. The object \<open>self\<close> is a record that
  every method takes and returns; a Python exception is a value of type \<open>error\<close>, and a
  method that raises returns \<open>Inl (e, self)\<close>, the state being the one reached when the
  exception was raised (Python does not undo the calls made before it).
\<close>

type_synonym timestamp = nat

datatype error =
    AssertionError string
  | KeyError string
  | QueryError string  \<comment> \<open>any \<open>Exception\<close> raised by the catalog connection\<close>

subsection \<open>Python values\<close>

text \<open>Truthiness of an \<open>Optional[str]\<close>: \<open>None\<close> and the empty string are false.\<close>

definition falsy :: "string option \<Rightarrow> bool" where
  "falsy x = (case x of None \<Rightarrow> True | Some t \<Rightarrow> t = [])"

text \<open>What an f-string prints for an \<open>Optional[str]\<close>: \<open>None\<close> is printed as the word None.\<close>

definition py_str :: "string option \<Rightarrow> string" where
  "py_str x = (case x of None \<Rightarrow> ''None'' | Some t \<Rightarrow> t)"

text \<open>\<open>str.lower\<close>, on the ASCII letters (a \<open>char\<close> is a byte).\<close>

definition lower_char :: "char \<Rightarrow> char" where
  "lower_char c =
     (let n = (of_char c :: nat) in if 65 \<le> n \<and> n \<le> 90 then char_of (n + 32) else c)"

definition lower :: "string \<Rightarrow> string" where
  "lower t = map lower_char t"

subsection \<open>Dataset identifiers\<close>

text \<open>
  Modelled from the spec: \<open>DatasetUrn\<close> (datahub.metadata.urns) and
  \<open>mce_builder.make_dataset_urn_with_platform_instance\<close> are not part of the source file.
  The spec describes a dataset identifier as a canonical key composed of platform, qualified
  name, optional platform instance and environment, two identifiers being equal iff all
  components match, and every identifier being built by the same construction rules. The
  key that \<open>urn()\<close> returns is therefore kept as the tuple of its components, and both
  constructors build it the same way.
\<close>

datatype DatasetUrn =
  DatasetUrn (urn_platform: string) (urn_name: string) (urn_env: string)
    (urn_platform_instance: "string option")

definition create_from_ids :: "string \<Rightarrow> string \<Rightarrow> string \<Rightarrow> string option \<Rightarrow> DatasetUrn" where
  "create_from_ids platform_id table_name env_tag instance =
     DatasetUrn platform_id table_name env_tag instance"

definition make_dataset_urn_with_platform_instance ::
    "string \<Rightarrow> string \<Rightarrow> string option \<Rightarrow> string \<Rightarrow> DatasetUrn" where
  "make_dataset_urn_with_platform_instance platform_id table_name instance env_tag =
     create_from_ids platform_id table_name env_tag instance"

subsection \<open>Configuration, catalog snapshot, evidence rows\<close>

datatype LineageMode = SQL_BASED | STL_SCAN_BASED | MIXED

datatype LineageCollectorType =
  QUERY_SCAN | QUERY_SQL_PARSER | VIEW | VIEW_DDL_SQL_PARSING | COPY | UNLOAD

text \<open>The \<open>name\<close> attribute of the enumeration member.\<close>

fun collector_name :: "LineageCollectorType \<Rightarrow> string" where
  "collector_name QUERY_SCAN = ''QUERY_SCAN''"
| "collector_name QUERY_SQL_PARSER = ''QUERY_SQL_PARSER''"
| "collector_name VIEW = ''VIEW''"
| "collector_name VIEW_DDL_SQL_PARSING = ''VIEW_DDL_SQL_PARSING''"
| "collector_name COPY = ''COPY''"
| "collector_name UNLOAD = ''UNLOAD''"

text \<open>
  The fields of \<open>RedshiftConfig\<close> that the class reads. \<open>platform_instance_map\<close> is an
  optional dictionary.
\<close>

record RedshiftConfig =
  env :: string
  platform_instance :: "string option"
  default_schema :: string
  resolve_temp_table_in_lineage :: bool
  include_table_rename_lineage :: bool
  table_lineage_mode :: LineageMode
  include_views :: bool
  include_view_lineage :: bool
  include_copy_lineage :: bool
  include_unload_lineage :: bool
  platform_instance_map :: "(string \<rightharpoonup> string) option"

text \<open>
  A catalog entry (\<open>RedshiftTable\<close> or \<open>RedshiftView\<close>: the class reads \<open>name\<close> and
  \<open>type\<close> of either) and a schema (\<open>RedshiftSchema\<close>: its \<open>type\<close> and
  \<open>external_database\<close>).
\<close>

record RedshiftTable =
  name :: string
  table_type :: string

record RedshiftSchema =
  schema_type :: string
  external_database :: "string option"

text \<open>
  Dictionaries are association lists in iteration order; \<open>d[k]\<close> is \<open>map_of d k\<close> and
  raises \<open>KeyError\<close> where that is \<open>None\<close>.
\<close>

type_synonym all_tables = "(string \<times> (string \<times> RedshiftTable list) list) list"
type_synonym db_schemas = "(string \<times> (string \<times> RedshiftSchema) list) list"

record LineageRow =
  source_schema :: "string option"
  source_table :: "string option"
  target_schema :: "string option"
  target_table :: "string option"
  ddl :: "string option"
  filename :: "string option"
  timestamp :: "timestamp option"
  session_id :: "string option"

record TempTableRow =
  temp_query_text :: string
  temp_session_id :: string
  temp_start_time :: timestamp

subsection \<open>Queries and the catalog connection\<close>

text \<open>
  The query text that a \<open>RedshiftQuery\<close> builder returns is kept as the builder's name and
  arguments. A connection answers a query with the rows it yields and, when the query or
  the cursor fails, the exception raised after them.
\<close>

datatype query =
    list_insert_create_queries_sql string timestamp timestamp
  | stl_scan_based_lineage_query string timestamp timestamp
  | view_lineage_query
  | list_late_view_ddls_query
  | list_copy_commands_sql string timestamp timestamp
  | list_unload_commands_sql string timestamp timestamp

type_synonym 'a row_stream = "'a list \<times> error option"
type_synonym connection = "query \<Rightarrow> LineageRow row_stream"

definition get_lineage_rows :: "connection \<Rightarrow> query \<Rightarrow> LineageRow row_stream" where
  "get_lineage_rows conn q = conn q"

subsection \<open>The legacy extractor\<close>

text \<open>
  The methods of \<open>RedshiftLineageExtractor\<close> that the class calls, as functions of their
  arguments: \<open>get_sources\<close> is the first component of what \<open>_get_sources\<close> returns, with
  each source replaced by its \<open>urn\<close>; \<open>get_target_lineage\<close> is the \<open>dataset.urn\<close> of the
  entry that \<open>_get_target_lineage\<close> returns, if any; \<open>process_table_renames\<close> is the
  dictionary of (new, original) pairs.
\<close>

record RedshiftLineageExtractor =
  get_time_window :: "timestamp \<times> timestamp"
  get_temp_tables :: "connection \<Rightarrow> TempTableRow row_stream"
  process_table_renames :: "string \<Rightarrow> connection \<Rightarrow> error + (DatasetUrn \<times> DatasetUrn) list"
  get_sources ::
    "LineageCollectorType \<Rightarrow> string \<Rightarrow> string option \<Rightarrow> string option \<Rightarrow> string option
       \<Rightarrow> string option \<Rightarrow> DatasetUrn list"
  get_target_lineage :: "string \<Rightarrow> LineageRow \<Rightarrow> LineageCollectorType \<Rightarrow> DatasetUrn option"

subsection \<open>The aggregator and the object\<close>

text \<open>
  The aggregator is the list of the calls it has received, in order:
  \<open>add_observed_query\<close> (query, default\_db, default\_schema, session\_id, query\_timestamp,
  is\_known\_temp\_table), \<open>add_known_query_lineage\<close> (query\_text, downstream, upstreams,
  timestamp, merge\_lineage), \<open>add_view_definition\<close> (view\_urn, view\_definition,
  default\_db, default\_schema), \<open>add_known_lineage_mapping\<close> (upstream\_urn,
  downstream\_urn) and \<open>add_table_rename\<close> (original\_urn, new\_urn).
\<close>

datatype fact =
    ObservedQuery string string string "string option" "timestamp option" bool
  | KnownQueryLineage string DatasetUrn "DatasetUrn list" "timestamp option" bool
  | ViewDefinition DatasetUrn string string string
  | KnownLineageMapping DatasetUrn DatasetUrn
  | TableRename DatasetUrn DatasetUrn

record RedshiftSqlLineageV2 =
  platform :: string
  config :: RedshiftConfig
  database :: string
  lineage_v1 :: RedshiftLineageExtractor
  start_time :: timestamp
  end_time :: timestamp
  known_urns :: "DatasetUrn set"
  aggregator :: "fact list"
  report_warnings :: "(string \<times> error) list"
    \<comment> \<open>\<open>report.warning(key, message)\<close>: the message is printed from the exception\<close>
  report_status :: "(string \<times> bool) list"
    \<comment> \<open>\<open>_lineage_v1.report_status(key, status)\<close>\<close>

type_synonym 'a result = "(error \<times> 'a) + 'a"
type_synonym processor = "RedshiftSqlLineageV2 \<Rightarrow> LineageRow \<Rightarrow> RedshiftSqlLineageV2 result"

text \<open>\<open>__init__\<close>: the registry is empty until \<open>build\<close> fills it.\<close>

definition init ::
    "RedshiftConfig \<Rightarrow> RedshiftLineageExtractor \<Rightarrow> string \<Rightarrow> RedshiftSqlLineageV2" where
  "init cfg v1 db =
     \<lparr>platform = ''redshift'', config = cfg, database = db, lineage_v1 = v1,
      start_time = fst (get_time_window v1), end_time = snd (get_time_window v1),
      known_urns = {}, aggregator = [], report_warnings = [], report_status = []\<rparr>"

definition add_observed_query ::
    "string \<Rightarrow> string \<Rightarrow> string \<Rightarrow> string option \<Rightarrow> timestamp option \<Rightarrow> bool
       \<Rightarrow> RedshiftSqlLineageV2 \<Rightarrow> RedshiftSqlLineageV2" where
  "add_observed_query q db sch sid ts temp self =
     self\<lparr>aggregator := aggregator self @ [ObservedQuery q db sch sid ts temp]\<rparr>"

definition add_known_query_lineage ::
    "string \<Rightarrow> DatasetUrn \<Rightarrow> DatasetUrn list \<Rightarrow> timestamp option \<Rightarrow> bool
       \<Rightarrow> RedshiftSqlLineageV2 \<Rightarrow> RedshiftSqlLineageV2" where
  "add_known_query_lineage q down ups ts merge self =
     self\<lparr>aggregator := aggregator self @ [KnownQueryLineage q down ups ts merge]\<rparr>"

definition add_view_definition ::
    "DatasetUrn \<Rightarrow> string \<Rightarrow> string \<Rightarrow> string \<Rightarrow> RedshiftSqlLineageV2 \<Rightarrow> RedshiftSqlLineageV2" where
  "add_view_definition view_urn definition_sql db sch self =
     self\<lparr>aggregator := aggregator self @ [ViewDefinition view_urn definition_sql db sch]\<rparr>"

definition add_known_lineage_mapping ::
    "DatasetUrn \<Rightarrow> DatasetUrn \<Rightarrow> RedshiftSqlLineageV2 \<Rightarrow> RedshiftSqlLineageV2" where
  "add_known_lineage_mapping upstream_urn downstream_urn self =
     self\<lparr>aggregator := aggregator self @ [KnownLineageMapping upstream_urn downstream_urn]\<rparr>"

definition add_table_rename ::
    "DatasetUrn \<Rightarrow> DatasetUrn \<Rightarrow> RedshiftSqlLineageV2 \<Rightarrow> RedshiftSqlLineageV2" where
  "add_table_rename original_urn new_urn self =
     self\<lparr>aggregator := aggregator self @ [TableRename original_urn new_urn]\<rparr>"

section \<open>The methods\<close>

subsection \<open>Classifiers\<close>

definition process_sql_parser_lineage :: processor where
  "process_sql_parser_lineage self lineage_row =
     (case ddl lineage_row of
        None \<Rightarrow> Inr self
      | Some q \<Rightarrow>
          Inr (add_observed_query q (database self) (default_schema (config self))
                 (session_id lineage_row) (timestamp lineage_row) False self))"

definition make_filtered_target :: "RedshiftSqlLineageV2 \<Rightarrow> LineageRow \<Rightarrow> DatasetUrn option" where
  "make_filtered_target self lineage_row =
     (let target = create_from_ids (platform self)
            (database self @ ''.'' @ py_str (target_schema lineage_row) @ ''.'' @
              py_str (target_table lineage_row))
            (env (config self)) (platform_instance (config self))
      in if target \<notin> known_urns self then None else Some target)"

text \<open>
  The \<open>assert lineage_row.ddl\<close> of the scan classifier fails on a null and on an empty
  text (assertions are enabled, as in a normal run of the interpreter).
\<close>

definition process_stl_scan_lineage :: processor where
  "process_stl_scan_lineage self lineage_row =
     (case make_filtered_target self lineage_row of
        None \<Rightarrow> Inr self
      | Some target \<Rightarrow>
          (let source = create_from_ids (platform self)
                 (database self @ ''.'' @ py_str (source_schema lineage_row) @ ''.'' @
                   py_str (source_table lineage_row))
                 (env (config self)) (platform_instance (config self))
           in case ddl lineage_row of
                None \<Rightarrow> Inl (AssertionError ''stl scan entry is missing query text'', self)
              | Some q \<Rightarrow>
                  if q = []
                  then Inl (AssertionError ''stl scan entry is missing query text'', self)
                  else Inr (add_known_query_lineage q target [source]
                              (timestamp lineage_row) True self)))"

definition process_view_lineage :: processor where
  "process_view_lineage self lineage_row =
     (case ddl lineage_row of
        None \<Rightarrow> Inr self
      | Some q \<Rightarrow>
          (case make_filtered_target self lineage_row of
             None \<Rightarrow> Inr self
           | Some target \<Rightarrow>
               Inr (add_view_definition target q (database self)
                      (default_schema (config self)) self)))"

definition process_copy_command :: processor where
  "process_copy_command self lineage_row =
     (case get_sources (lineage_v1 self) COPY (database self) None None None
             (filename lineage_row) of
        [] \<Rightarrow> Inr self
      | s3_urn # _ \<Rightarrow>
          if falsy (target_schema lineage_row) \<or> falsy (target_table lineage_row)
          then Inr self
          else (case make_filtered_target self lineage_row of
                  None \<Rightarrow> Inr self
                | Some target \<Rightarrow> Inr (add_known_lineage_mapping s3_urn target self)))"

definition process_unload_command :: processor where
  "process_unload_command self lineage_row =
     (case get_target_lineage (lineage_v1 self) (database self) lineage_row UNLOAD of
        None \<Rightarrow> Inr self
      | Some output_urn \<Rightarrow>
          if falsy (source_schema lineage_row) \<or> falsy (source_table lineage_row)
          then Inr self
          else (let source = create_from_ids (platform self)
                      (database self @ ''.'' @ py_str (source_schema lineage_row) @ ''.'' @
                        py_str (source_table lineage_row))
                      (env (config self)) (platform_instance (config self))
                in if source \<notin> known_urns self then Inr self
                   else Inr (add_known_lineage_mapping source output_urn self)))"

subsection \<open>External tables\<close>

text \<open>
  The inner loop of \<open>_process_external_tables\<close> over the tables of one schema, and the outer
  loop over the schemas of the run's database. \<open>db_schemas[self.database][schema_name]\<close> is
  looked up only for an external table; either subscript raises \<open>KeyError\<close> on a missing
  key, after the calls already made.
\<close>

fun external_tables_of_schema ::
    "db_schemas \<Rightarrow> string \<Rightarrow> RedshiftTable list \<Rightarrow> RedshiftSqlLineageV2
       \<Rightarrow> RedshiftSqlLineageV2 result" where
  "external_tables_of_schema schemas_by_db schema_name [] self = Inr self"
| "external_tables_of_schema schemas_by_db schema_name (table # tables) self =
     (if table_type table = ''EXTERNAL_TABLE'' then
        (case map_of schemas_by_db (database self) of
           None \<Rightarrow> Inl (KeyError (database self), self)
         | Some schemas \<Rightarrow>
             (case map_of schemas schema_name of
                None \<Rightarrow> Inl (KeyError schema_name, self)
              | Some schema \<Rightarrow>
                  (let upstream_platform = lower (schema_type schema);
                       table_urn = make_dataset_urn_with_platform_instance (platform self)
                         (database self @ ''.'' @ schema_name @ ''.'' @ name table)
                         (platform_instance (config self)) (env (config self));
                       upstream_urn = make_dataset_urn_with_platform_instance upstream_platform
                         (py_str (external_database schema) @ ''.'' @ name table)
                         (case platform_instance_map (config self) of
                            None \<Rightarrow> None
                          | Some m \<Rightarrow> m upstream_platform)
                         (env (config self))
                   in external_tables_of_schema schemas_by_db schema_name tables
                        (add_known_lineage_mapping upstream_urn table_urn self))))
      else external_tables_of_schema schemas_by_db schema_name tables self)"

fun external_tables_of_schemas ::
    "db_schemas \<Rightarrow> (string \<times> RedshiftTable list) list \<Rightarrow> RedshiftSqlLineageV2
       \<Rightarrow> RedshiftSqlLineageV2 result" where
  "external_tables_of_schemas schemas_by_db [] self = Inr self"
| "external_tables_of_schemas schemas_by_db ((schema_name, tables) # rest) self =
     (case external_tables_of_schema schemas_by_db schema_name tables self of
        Inl x \<Rightarrow> Inl x
      | Inr self' \<Rightarrow> external_tables_of_schemas schemas_by_db rest self')"

definition process_external_tables ::
    "all_tables \<Rightarrow> db_schemas \<Rightarrow> RedshiftSqlLineageV2 \<Rightarrow> RedshiftSqlLineageV2 result" where
  "process_external_tables tables_by_db schemas_by_db self =
     (case map_of tables_by_db (database self) of
        None \<Rightarrow> Inl (KeyError (database self), self)
      | Some schemas \<Rightarrow> external_tables_of_schemas schemas_by_db schemas self)"

subsection \<open>The dispatch loop\<close>

text \<open>
  The \<open>for\<close> loop of \<open>_populate_lineage_agg\<close>: the rows are classified one at a time; an
  exception of the processor, or of the row source once its rows are consumed, ends it.
\<close>

fun stream_rows ::
    "processor \<Rightarrow> RedshiftSqlLineageV2 \<Rightarrow> LineageRow list \<Rightarrow> error option
       \<Rightarrow> RedshiftSqlLineageV2 result" where
  "stream_rows proc self [] None = Inr self"
| "stream_rows proc self [] (Some e) = Inl (e, self)"
| "stream_rows proc self (lineage_row # rows) fault =
     (case proc self lineage_row of
        Inl x \<Rightarrow> Inl x
      | Inr self' \<Rightarrow> stream_rows proc self' rows fault)"

text \<open>\<open>try ... except Exception\<close>: the exception becomes a warning and a status report.\<close>

definition populate_lineage_agg ::
    "query \<Rightarrow> LineageCollectorType \<Rightarrow> processor \<Rightarrow> connection \<Rightarrow> RedshiftSqlLineageV2
       \<Rightarrow> RedshiftSqlLineageV2" where
  "populate_lineage_agg q lineage_type proc conn self =
     (case stream_rows proc self (fst (get_lineage_rows conn q))
             (snd (get_lineage_rows conn q)) of
        Inr self' \<Rightarrow> self'
      | Inl (e, self') \<Rightarrow>
          self'\<lparr>report_warnings :=
                   report_warnings self' @ [(''extract-'' @ collector_name lineage_type, e)],
                 report_status :=
                   report_status self' @ [(''extract-'' @ collector_name lineage_type, False)]\<rparr>)"

type_synonym populate_call = "LineageCollectorType \<times> query \<times> processor"

definition populate_calls :: "RedshiftSqlLineageV2 \<Rightarrow> populate_call list" where
  "populate_calls self =
     (if table_lineage_mode (config self) \<in> {SQL_BASED, MIXED}
      then [(QUERY_SQL_PARSER,
             list_insert_create_queries_sql (database self) (start_time self) (end_time self),
             process_sql_parser_lineage)]
      else []) @
     (if table_lineage_mode (config self) \<in> {STL_SCAN_BASED, MIXED}
      then [(QUERY_SCAN,
             stl_scan_based_lineage_query (database self) (start_time self) (end_time self),
             process_stl_scan_lineage)]
      else []) @
     (if include_views (config self) \<and> include_view_lineage (config self)
      then [(VIEW, view_lineage_query, process_view_lineage),
            (VIEW_DDL_SQL_PARSING, list_late_view_ddls_query, process_view_lineage)]
      else []) @
     (if include_copy_lineage (config self)
      then [(COPY,
             list_copy_commands_sql (database self) (start_time self) (end_time self),
             process_copy_command)]
      else []) @
     (if include_unload_lineage (config self)
      then [(UNLOAD,
             list_unload_commands_sql (database self) (start_time self) (end_time self),
             process_unload_command)]
      else [])"

text \<open>The loop \<open>for lineage_type, query, processor in populate_calls\<close>.\<close>

fun dispatch ::
    "connection \<Rightarrow> populate_call list \<Rightarrow> RedshiftSqlLineageV2 \<Rightarrow> RedshiftSqlLineageV2" where
  "dispatch conn [] self = self"
| "dispatch conn ((lineage_type, q, proc) # calls) self =
     dispatch conn calls (populate_lineage_agg q lineage_type proc conn self)"

subsection \<open>build\<close>

text \<open>
  \<open>build\<close> fills the registry from the whole catalog snapshot, streams the temp-table rows
  and the renames when they are enabled, collects the enabled evidence kinds in
  \<open>populate_calls\<close>, runs the dispatch loop and, last and outside any \<open>try\<close>, the external
  tables. The callback \<open>aggregator.is_temp_table\<close> that it installs is the test
  \<open>urn \<notin> known_urns\<close>; it is read by the aggregator only and is not a component of the
  state.
\<close>

definition build_known_urns :: "RedshiftSqlLineageV2 \<Rightarrow> all_tables \<Rightarrow> DatasetUrn set" where
  "build_known_urns self tables_by_db =
     set (concat (map (\<lambda>(db, schemas).
            concat (map (\<lambda>(schema, tables).
              map (\<lambda>table.
                     create_from_ids (platform self) (db @ ''.'' @ schema @ ''.'' @ name table)
                       (env (config self)) (platform_instance (config self)))
                tables) schemas)) tables_by_db))"

fun add_temp_rows :: "TempTableRow list \<Rightarrow> RedshiftSqlLineageV2 \<Rightarrow> RedshiftSqlLineageV2" where
  "add_temp_rows [] self = self"
| "add_temp_rows (temp_row # rows) self =
     add_temp_rows rows
       (add_observed_query (temp_query_text temp_row) (database self)
          (default_schema (config self)) (Some (temp_session_id temp_row))
          (Some (temp_start_time temp_row)) True self)"

definition resolve_temp_tables ::
    "connection \<Rightarrow> RedshiftSqlLineageV2 \<Rightarrow> RedshiftSqlLineageV2 result" where
  "resolve_temp_tables conn self =
     (if resolve_temp_table_in_lineage (config self) then
        (case get_temp_tables (lineage_v1 self) conn of
           (rows, None) \<Rightarrow> Inr (add_temp_rows rows self)
         | (rows, Some e) \<Rightarrow> Inl (e, add_temp_rows rows self))
      else Inr self)"

fun add_table_renames ::
    "(DatasetUrn \<times> DatasetUrn) list \<Rightarrow> RedshiftSqlLineageV2 \<Rightarrow> RedshiftSqlLineageV2" where
  "add_table_renames [] self = self"
| "add_table_renames ((new_urn, original_urn) # rest) self =
     add_table_renames rest (add_table_rename original_urn new_urn self)"

definition table_rename_lineage ::
    "connection \<Rightarrow> RedshiftSqlLineageV2 \<Rightarrow> RedshiftSqlLineageV2 result" where
  "table_rename_lineage conn self =
     (if include_table_rename_lineage (config self) then
        (case process_table_renames (lineage_v1 self) (database self) conn of
           Inl e \<Rightarrow> Inl (e, self)
         | Inr table_renames \<Rightarrow> Inr (add_table_renames table_renames self))
      else Inr self)"

definition build ::
    "connection \<Rightarrow> all_tables \<Rightarrow> db_schemas \<Rightarrow> RedshiftSqlLineageV2
       \<Rightarrow> RedshiftSqlLineageV2 result" where
  "build conn tables_by_db schemas_by_db self =
     (let self1 = self\<lparr>known_urns := build_known_urns self tables_by_db\<rparr> in
      case resolve_temp_tables conn self1 of
        Inl x \<Rightarrow> Inl x
      | Inr self2 \<Rightarrow>
          (case table_rename_lineage conn self2 of
             Inl x \<Rightarrow> Inl x
           | Inr self3 \<Rightarrow>
               process_external_tables tables_by_db schemas_by_db
                 (dispatch conn (populate_calls self3) self3)))"

subsection \<open>Observing a run\<close>

text \<open>The state a call ends in, raised or returned, and the facts it added to the aggregator.\<close>

definition state_of :: "'a result \<Rightarrow> 'a" where
  "state_of r = (case r of Inl (e, s) \<Rightarrow> s | Inr s \<Rightarrow> s)"

definition raised :: "'a result \<Rightarrow> error option" where
  "raised r = (case r of Inl (e, s) \<Rightarrow> Some e | Inr s \<Rightarrow> None)"

definition new_facts :: "RedshiftSqlLineageV2 \<Rightarrow> RedshiftSqlLineageV2 \<Rightarrow> fact list" where
  "new_facts before after = drop (length (aggregator before)) (aggregator after)"

subsection \<open>What a classifier reads and writes\<close>

text \<open>
  The classifiers read the platform, the configuration, the database, the legacy extractor
  and the registry, and write the aggregator only. \<open>with_logs\<close> replaces the three logs of
  an object; \<open>row_output\<close> is what a processor does with one row, as an exception or the
  facts it adds; \<open>context_only\<close> says that this does not depend on the logs.
\<close>

definition with_logs ::
  "RedshiftSqlLineageV2 \<Rightarrow> fact list \<Rightarrow> (string \<times> error) list \<Rightarrow> (string \<times> bool) list \<Rightarrow> RedshiftSqlLineageV2" where
  "with_logs self a w st = self\<lparr>aggregator := a, report_warnings := w, report_status := st\<rparr>"

definition row_output :: "processor \<Rightarrow> RedshiftSqlLineageV2 \<Rightarrow> LineageRow \<Rightarrow> error + fact list" where
  "row_output proc self lineage_row =
     (case proc self lineage_row of
        Inl (e, self') \<Rightarrow> Inl e
      | Inr self' \<Rightarrow> Inr (new_facts self self'))"

definition place :: "RedshiftSqlLineageV2 \<Rightarrow> fact list \<Rightarrow> (string \<times> error) list \<Rightarrow> (string \<times> bool) list \<Rightarrow> error + fact list \<Rightarrow> RedshiftSqlLineageV2 result" where
  "place self a w st out = (case out of Inl e \<Rightarrow> Inl (e, with_logs self a w st) | Inr fs \<Rightarrow> Inr (with_logs self (a @ fs) w st))"

definition context_only :: "processor \<Rightarrow> bool" where
  "context_only proc \<longleftrightarrow> (\<forall>self a w st r. proc (with_logs self a w st) r = place self a w st (row_output proc self r))"

text \<open>
  The facts that the rows of one evidence kind add, and the exception that ends the kind, if
  any; the facts that the \<open>i\<close>-th call of the dispatch loop adds in a run.
\<close>

fun stream_output ::
    "processor \<Rightarrow> RedshiftSqlLineageV2 \<Rightarrow> LineageRow list \<Rightarrow> error option
       \<Rightarrow> fact list \<times> error option" where
  "stream_output proc self [] fault = ([], fault)"
| "stream_output proc self (lineage_row # rows) fault =
     (case row_output proc self lineage_row of
        Inl e \<Rightarrow> ([], Some e)
      | Inr fs \<Rightarrow>
          (fs @ fst (stream_output proc self rows fault),
           snd (stream_output proc self rows fault)))"

definition kind_output ::
    "connection \<Rightarrow> RedshiftSqlLineageV2 \<Rightarrow> populate_call \<Rightarrow> fact list \<times> error option" where
  "kind_output conn self call =
     (case call of (lineage_type, q, proc) \<Rightarrow>
        stream_output proc self (fst (get_lineage_rows conn q)) (snd (get_lineage_rows conn q)))"

definition kind_warning :: "connection \<Rightarrow> RedshiftSqlLineageV2 \<Rightarrow> populate_call \<Rightarrow> (string \<times> error) list" where
  "kind_warning conn self call =
     (case snd (kind_output conn self call) of
        None \<Rightarrow> []
      | Some e \<Rightarrow> [(''extract-'' @ collector_name (fst call), e)])"

definition kind_status :: "connection \<Rightarrow> RedshiftSqlLineageV2 \<Rightarrow> populate_call \<Rightarrow> (string \<times> bool) list" where
  "kind_status conn self call =
     (case snd (kind_output conn self call) of
        None \<Rightarrow> []
      | Some e \<Rightarrow> [(''extract-'' @ collector_name (fst call), False)])"

definition contributed ::
    "connection \<Rightarrow> populate_call list \<Rightarrow> RedshiftSqlLineageV2 \<Rightarrow> nat \<Rightarrow> fact list" where
  "contributed conn calls self i =
     new_facts (dispatch conn (take i calls) self) (dispatch conn (take (Suc i) calls) self)"

subsection \<open>Properties of facts\<close>

text \<open>
  \<open>run_database_urn\<close> is the identifier of the f-string
  \<open>{self.database}.{schema}.{table}\<close> with the platform, environment and platform instance
  of the run. For each row-streamed classifier, a fact whose identifiers built by the
  classifier are the ones of the row's fields: both ends of a scan edge, the view of a view
  definition, the downstream of a copy edge, the upstream of an unload edge.
\<close>

definition run_database_urn ::
    "RedshiftSqlLineageV2 \<Rightarrow> string option \<Rightarrow> string option \<Rightarrow> DatasetUrn" where
  "run_database_urn self sch tbl =
     create_from_ids (platform self)
       (database self @ ''.'' @ py_str sch @ ''.'' @ py_str tbl)
       (env (config self)) (platform_instance (config self))"

definition scan_fact_built :: "RedshiftSqlLineageV2 \<Rightarrow> LineageRow \<Rightarrow> fact \<Rightarrow> bool" where
  "scan_fact_built self lineage_row f =
     (case f of
        KnownQueryLineage q down ups ts merge \<Rightarrow>
          down = run_database_urn self (target_schema lineage_row) (target_table lineage_row) \<and>
          ups = [run_database_urn self (source_schema lineage_row) (source_table lineage_row)]
      | _ \<Rightarrow> False)"

definition view_fact_built :: "RedshiftSqlLineageV2 \<Rightarrow> LineageRow \<Rightarrow> fact \<Rightarrow> bool" where
  "view_fact_built self lineage_row f =
     (case f of
        ViewDefinition view_urn q default_db sch \<Rightarrow>
          view_urn = run_database_urn self (target_schema lineage_row) (target_table lineage_row) \<and>
          default_db = database self
      | _ \<Rightarrow> False)"

definition copy_fact_built :: "RedshiftSqlLineageV2 \<Rightarrow> LineageRow \<Rightarrow> fact \<Rightarrow> bool" where
  "copy_fact_built self lineage_row f =
     (case f of
        KnownLineageMapping up down \<Rightarrow>
          down = run_database_urn self (target_schema lineage_row) (target_table lineage_row)
      | _ \<Rightarrow> False)"

definition unload_fact_built :: "RedshiftSqlLineageV2 \<Rightarrow> LineageRow \<Rightarrow> fact \<Rightarrow> bool" where
  "unload_fact_built self lineage_row f =
     (case f of
        KnownLineageMapping up down \<Rightarrow>
          up = run_database_urn self (source_schema lineage_row) (source_table lineage_row)
      | _ \<Rightarrow> False)"

text \<open>
  The downstream of a known edge (\<open>add_known_query_lineage\<close> or
  \<open>add_known_lineage_mapping\<close>), and a fact that is a known edge into a given registry.
\<close>

definition known_edge_downstream :: "fact \<Rightarrow> DatasetUrn option" where
  "known_edge_downstream f =
     (case f of
        KnownQueryLineage q down ups ts merge \<Rightarrow> Some down
      | KnownLineageMapping up down \<Rightarrow> Some down
      | _ \<Rightarrow> None)"

definition downstream_registered :: "DatasetUrn set \<Rightarrow> fact \<Rightarrow> bool" where
  "downstream_registered registry f =
     (case known_edge_downstream f of None \<Rightarrow> False | Some down \<Rightarrow> down \<in> registry)"

text \<open>
  The edge of an external table as C8 describes it: from the identifier on the schema's
  external platform (the lower-cased schema type) and external database to the table's own
  identifier. \<open>schemas_declared\<close> says that \<open>db_schemas\<close> declares every schema of the
  run's database that holds an external table; \<open>external_table_edges\<close> lists the edges of
  the external tables of a catalog, in order; \<open>schema_urns\<close> are the identifiers of the
  tables of one schema.
\<close>

definition is_external :: "RedshiftTable \<Rightarrow> bool" where
  "is_external table = (table_type table = ''EXTERNAL_TABLE'')"

definition external_table_edge ::
    "RedshiftSqlLineageV2 \<Rightarrow> string \<Rightarrow> RedshiftSchema \<Rightarrow> RedshiftTable \<Rightarrow> fact" where
  "external_table_edge self schema_name schema table =
     KnownLineageMapping
       (DatasetUrn (lower (schema_type schema))
          (py_str (external_database schema) @ ''.'' @ name table)
          (env (config self))
          (case platform_instance_map (config self) of
             None \<Rightarrow> None
           | Some m \<Rightarrow> m (lower (schema_type schema))))
       (DatasetUrn (platform self) (database self @ ''.'' @ schema_name @ ''.'' @ name table)
          (env (config self)) (platform_instance (config self)))"

definition schemas_declared :: "db_schemas \<Rightarrow> string \<Rightarrow> (string \<times> RedshiftTable list) list \<Rightarrow> bool" where
  "schemas_declared schemas_by_db db schemas =
     list_all (\<lambda>(schema_name, tables).
        list_ex is_external tables \<longrightarrow>
          (case map_of schemas_by_db db of
             None \<Rightarrow> False
           | Some declared \<Rightarrow> map_of declared schema_name \<noteq> None)) schemas"

definition external_table_edges ::
    "RedshiftSqlLineageV2 \<Rightarrow> db_schemas \<Rightarrow> (string \<times> RedshiftTable list) list \<Rightarrow> fact list" where
  "external_table_edges self schemas_by_db schemas =
     concat (map (\<lambda>(schema_name, tables).
        map (\<lambda>table.
               external_table_edge self schema_name
                 (the (map_of (the (map_of schemas_by_db (database self))) schema_name)) table)
          (filter is_external tables)) schemas)"

definition schema_urns :: "RedshiftSqlLineageV2 \<Rightarrow> string \<Rightarrow> RedshiftTable list \<Rightarrow> DatasetUrn set" where
  "schema_urns self schema_name tables =
     (\<lambda>table. create_from_ids (platform self)
                 (database self @ ''.'' @ schema_name @ ''.'' @ name table)
                 (env (config self)) (platform_instance (config self))) ` set tables"

subsection \<open>A small catalog\<close>

text \<open>
  A run on the database \<open>db\<close> with two tables in the schema \<open>public\<close> and one external
  table; the storage resolvers name the file of a row.
\<close>

definition example_config :: RedshiftConfig where
  "example_config =
     \<lparr>env = ''PROD'', platform_instance = None, default_schema = ''public'',
      resolve_temp_table_in_lineage = True, include_table_rename_lineage = True,
      table_lineage_mode = MIXED, include_views = True, include_view_lineage = True,
      include_copy_lineage = True, include_unload_lineage = True,
      platform_instance_map = None\<rparr>"

definition example_v1 :: RedshiftLineageExtractor where
  "example_v1 =
     \<lparr>get_time_window = (0, 100),
      get_temp_tables = (\<lambda>conn.
         ([\<lparr>temp_query_text = ''CREATE TEMP TABLE staging AS SELECT * FROM orders'',
            temp_session_id = ''session-1'', temp_start_time = 3\<rparr>], None)),
      process_table_renames = (\<lambda>db conn.
         Inr [(DatasetUrn ''redshift'' ''db.public.orders'' ''PROD'' None,
               DatasetUrn ''redshift'' ''db.public.orders_old'' ''PROD'' None)]),
      get_sources = (\<lambda>lineage_type db sch tbl q file.
         case file of None \<Rightarrow> [] | Some f \<Rightarrow> [DatasetUrn ''s3'' f ''PROD'' None]),
      get_target_lineage = (\<lambda>db lineage_row lineage_type.
         case filename lineage_row of
           None \<Rightarrow> None
         | Some f \<Rightarrow> Some (DatasetUrn ''s3'' f ''PROD'' None))\<rparr>"

definition example_tables :: all_tables where
  "example_tables =
     [(''db'', [(''public'', [\<lparr>name = ''orders'', table_type = ''TABLE''\<rparr>,
                               \<lparr>name = ''customers'', table_type = ''TABLE''\<rparr>]),
                (''ext_schema'', [\<lparr>name = ''ext_tbl'', table_type = ''EXTERNAL_TABLE''\<rparr>])])]"

definition example_schemas :: db_schemas where
  "example_schemas =
     [(''db'', [(''public'', \<lparr>schema_type = ''local'', external_database = None\<rparr>),
                (''ext_schema'', \<lparr>schema_type = ''glue'', external_database = Some ''raw''\<rparr>)])]"

definition example_self :: RedshiftSqlLineageV2 where
  "example_self =
     (init example_config example_v1 ''db'')
       \<lparr>known_urns := build_known_urns (init example_config example_v1 ''db'') example_tables\<rparr>"

definition scan_row :: LineageRow where
  "scan_row =
     \<lparr>source_schema = Some ''public'', source_table = Some ''customers'',
      target_schema = Some ''public'', target_table = Some ''orders'',
      ddl = Some ''INSERT INTO orders SELECT * FROM customers'', filename = None,
      timestamp = Some 7, session_id = None\<rparr>"


definition copy_row :: LineageRow where
  "copy_row =
     \<lparr>source_schema = None, source_table = None,
      target_schema = Some ''public'', target_table = Some ''orders'',
      ddl = None, filename = Some ''s3://bucket/file.csv'',
      timestamp = Some 8, session_id = None\<rparr>"

definition unload_row :: LineageRow where
  "unload_row =
     \<lparr>source_schema = Some ''public'', source_table = Some ''orders'',
      target_schema = None, target_table = None,
      ddl = None, filename = Some ''s3://bucket/out/'',
      timestamp = Some 9, session_id = None\<rparr>"

definition empty_row :: LineageRow where
  "empty_row =
     \<lparr>source_schema = None, source_table = None, target_schema = None, target_table = None,
      ddl = None, filename = None, timestamp = None, session_id = None\<rparr>"

text \<open>
  A catalog in which the schema of the external table is not declared, a connection that
  answers every query with no row, one that answers with the rows above, and the latter with
  the scan query failing.
\<close>

definition undeclared_schemas :: db_schemas where
  "undeclared_schemas =
     [(''db'', [(''public'', \<lparr>schema_type = ''local'', external_database = None\<rparr>)])]"

definition quiet_connection :: connection where
  "quiet_connection q = ([], None)"

definition example_connection :: connection where
  "example_connection q =
     (case q of
        list_insert_create_queries_sql db t0 t1 \<Rightarrow> ([scan_row], None)
      | stl_scan_based_lineage_query db t0 t1 \<Rightarrow> ([scan_row], None)
      | view_lineage_query \<Rightarrow> ([], None)
      | list_late_view_ddls_query \<Rightarrow> ([], None)
      | list_copy_commands_sql db t0 t1 \<Rightarrow> ([copy_row], None)
      | list_unload_commands_sql db t0 t1 \<Rightarrow> ([unload_row], None))"

definition faulty_connection :: connection where
  "faulty_connection =
     example_connection
       (stl_scan_based_lineage_query ''db'' 0 100 :=
          ([], Some (QueryError ''stl_scan is not available'')))"

text \<open>
  A catalog with a second database whose name extends the name of the run's database by a
  dot, and a scan row whose target schema holds a dot.
\<close>

definition dotted_tables :: all_tables where
  "dotted_tables =
     [(''db'', [(''public'', [\<lparr>name = ''orders'', table_type = ''TABLE''\<rparr>,
                               \<lparr>name = ''customers'', table_type = ''TABLE''\<rparr>])]),
      (''db.x'', [(''y'', [\<lparr>name = ''z'', table_type = ''TABLE''\<rparr>])])]"

definition dotted_row :: LineageRow where
  "dotted_row =
     \<lparr>source_schema = Some ''public'', source_table = Some ''customers'',
      target_schema = Some ''x.y'', target_table = Some ''z'',
      ddl = Some ''INSERT INTO z SELECT * FROM customers'', filename = None,
      timestamp = Some 7, session_id = None\<rparr>"

section \<open>Frame lemmas\<close>

lemma with_logs_sel [simp]:
  "platform (with_logs self a w st) = platform self"
  "config (with_logs self a w st) = config self"
  "database (with_logs self a w st) = database self"
  "lineage_v1 (with_logs self a w st) = lineage_v1 self"
  "start_time (with_logs self a w st) = start_time self"
  "end_time (with_logs self a w st) = end_time self"
  "known_urns (with_logs self a w st) = known_urns self"
  "aggregator (with_logs self a w st) = a"
  "report_warnings (with_logs self a w st) = w"
  "report_status (with_logs self a w st) = st"
  by (simp_all add: with_logs_def)

lemma with_logs_self [simp]:
  "with_logs self (aggregator self) (report_warnings self) (report_status self) = self"
  by (simp add: with_logs_def)

lemma with_logs_with_logs [simp]:
  "with_logs (with_logs self a w st) a' w' st' = with_logs self a' w' st'"
  by (simp add: with_logs_def)

lemma add_with_logs [simp]:
  "add_observed_query q db sch sid ts temp (with_logs self a w st) =
     with_logs self (a @ [ObservedQuery q db sch sid ts temp]) w st"
  "add_known_query_lineage q down ups ts merge (with_logs self a w st) =
     with_logs self (a @ [KnownQueryLineage q down ups ts merge]) w st"
  "add_view_definition v d db sch (with_logs self a w st) =
     with_logs self (a @ [ViewDefinition v d db sch]) w st"
  "add_known_lineage_mapping u d' (with_logs self a w st) =
     with_logs self (a @ [KnownLineageMapping u d']) w st"
  "add_table_rename ou nu (with_logs self a w st) =
     with_logs self (a @ [TableRename ou nu]) w st"
  by (simp_all add: with_logs_def add_observed_query_def add_known_query_lineage_def
        add_view_definition_def add_known_lineage_mapping_def add_table_rename_def)

lemma new_facts_add [simp]:
  "new_facts self (add_observed_query q db sch sid ts temp self) = [ObservedQuery q db sch sid ts temp]"
  "new_facts self (add_known_query_lineage q down ups ts merge self) = [KnownQueryLineage q down ups ts merge]"
  "new_facts self (add_view_definition v d db sch self) = [ViewDefinition v d db sch]"
  "new_facts self (add_known_lineage_mapping u d' self) = [KnownLineageMapping u d']"
  "new_facts self (add_table_rename ou nu self) = [TableRename ou nu]"
  "new_facts self self = []"
  by (simp_all add: new_facts_def add_observed_query_def add_known_query_lineage_def
        add_view_definition_def add_known_lineage_mapping_def add_table_rename_def)

lemma mft_with_logs [simp]: "make_filtered_target (with_logs self a w st) r = make_filtered_target self r"
  by (simp add: make_filtered_target_def)

lemma co_sql: "context_only process_sql_parser_lineage"
  by (simp add: context_only_def process_sql_parser_lineage_def place_def row_output_def split: option.splits)

lemma co_scan: "context_only process_stl_scan_lineage"
  by (simp add: context_only_def process_stl_scan_lineage_def place_def row_output_def Let_def split: option.splits)

lemma co_view: "context_only process_view_lineage"
  by (simp add: context_only_def process_view_lineage_def place_def row_output_def split: option.splits)

lemma co_copy: "context_only process_copy_command"
  by (simp add: context_only_def process_copy_command_def place_def row_output_def split: option.splits list.splits)

lemma co_unload: "context_only process_unload_command"
  by (simp add: context_only_def process_unload_command_def place_def row_output_def Let_def split: option.splits)


lemma stream_rows_with_logs:
  assumes "context_only proc"
  shows "stream_rows proc (with_logs self a w st) rows fault =
     (case snd (stream_output proc self rows fault) of
        None \<Rightarrow> Inr (with_logs self (a @ fst (stream_output proc self rows fault)) w st)
      | Some e \<Rightarrow> Inl (e, with_logs self (a @ fst (stream_output proc self rows fault)) w st))"
proof (induction rows arbitrary: a)
  case Nil
  show ?case by (cases fault) simp_all
next
  case (Cons r rows)
  have step: "proc (with_logs self a w st) r = place self a w st (row_output proc self r)"
    using assms by (simp add: context_only_def)
  show ?case
  proof (cases "row_output proc self r")
    case (Inl e)
    then show ?thesis by (simp add: step place_def)
  next
    case (Inr fs)
    then show ?thesis by (simp add: step place_def Cons.IH split: option.splits)
  qed
qed

lemma populate_with_logs:
  assumes "context_only proc"
  shows "populate_lineage_agg q lineage_type proc conn (with_logs self a w st) =
     with_logs self (a @ fst (kind_output conn self (lineage_type, q, proc)))
       (w @ kind_warning conn self (lineage_type, q, proc))
       (st @ kind_status conn self (lineage_type, q, proc))"
proof (cases "snd (stream_output proc self (fst (get_lineage_rows conn q))
                 (snd (get_lineage_rows conn q)))")
  case None
  then show ?thesis
    by (simp add: populate_lineage_agg_def stream_rows_with_logs [OF assms] kind_output_def
          kind_warning_def kind_status_def)
next
  case (Some e)
  then show ?thesis
    by (simp add: populate_lineage_agg_def stream_rows_with_logs [OF assms] kind_output_def
          kind_warning_def kind_status_def)
qed

lemma dispatch_with_logs:
  assumes "\<forall>call \<in> set calls. context_only (snd (snd call))"
  shows "dispatch conn calls (with_logs self a w st) =
     with_logs self (a @ concat (map (\<lambda>call. fst (kind_output conn self call)) calls))
       (w @ concat (map (kind_warning conn self) calls))
       (st @ concat (map (kind_status conn self) calls))"
  using assms
proof (induction calls arbitrary: a w st)
  case Nil
  show ?case by simp
next
  case (Cons call calls)
  obtain lineage_type q proc where call: "call = (lineage_type, q, proc)"
    by (cases call) auto
  have co: "context_only proc" using Cons.prems call by simp
  have rest: "\<forall>c \<in> set calls. context_only (snd (snd c))" using Cons.prems by simp
  show ?case
    by (simp add: call populate_with_logs [OF co] Cons.IH [OF rest])
qed

lemma populate_calls_context_only:
  "\<forall>call \<in> set (populate_calls self). context_only (snd (snd call))"
  by (auto simp: populate_calls_def co_sql co_scan co_view co_copy co_unload split: if_splits)

lemma contributed_eq:
  assumes "\<forall>call \<in> set calls. context_only (snd (snd call))" and "i < length calls"
  shows "contributed conn calls self i = fst (kind_output conn self (calls ! i))"
proof -
  have t: "\<forall>call \<in> set (take n calls). context_only (snd (snd call))" for n
    using assms(1) by (meson in_set_takeD)
  have d: "dispatch conn (take n calls) self =
     with_logs self (aggregator self @ concat (map (\<lambda>call. fst (kind_output conn self call)) (take n calls)))
       (report_warnings self @ concat (map (kind_warning conn self) (take n calls)))
       (report_status self @ concat (map (kind_status conn self) (take n calls)))" for n
    using dispatch_with_logs [OF t, where self = self and a = "aggregator self"
        and w = "report_warnings self" and st = "report_status self" and conn = conn and n1 = n]
    by simp
  have "contributed conn calls self i =
      drop (length (aggregator self @
              concat (map (\<lambda>call. fst (kind_output conn self call)) (take i calls))))
        (aggregator self @
           concat (map (\<lambda>call. fst (kind_output conn self call)) (take (Suc i) calls)))"
    unfolding contributed_def new_facts_def d by (simp only: with_logs_sel)
  then show ?thesis
    by (simp add: take_Suc_conv_app_nth [OF assms(2)])
qed

lemma kind_output_cong:
  assumes "conn' (fst (snd call)) = conn (fst (snd call))"
  shows "kind_output conn' self call = kind_output conn self call"
  using assms by (cases call) (simp add: kind_output_def get_lineage_rows_def)

lemma populate_calls_distinct: "distinct (map (\<lambda>call. fst (snd call)) (populate_calls self))"
  by (auto simp: populate_calls_def)

section \<open>Lemmas on the classifiers and on build\<close>

lemma state_of_simps [simp]: "state_of (Inr s) = s" "state_of (Inl (e, s)) = s"
  by (simp_all add: state_of_def)

lemma raised_simps [simp]: "raised (Inr s) = None" "raised (Inl (e, s)) = Some e"
  by (simp_all add: raised_def)

lemma make_filtered_target_SomeD:
  assumes "make_filtered_target self lineage_row = Some target"
  shows "target \<in> known_urns self"
    and "urn_name target = database self @ ''.'' @ py_str (target_schema lineage_row) @ ''.'' @
           py_str (target_table lineage_row)"
  using assms by (auto simp: make_filtered_target_def create_from_ids_def Let_def split: if_splits)

lemma make_filtered_target_run_database:
  "make_filtered_target self lineage_row = Some target \<Longrightarrow>
     target = run_database_urn self (target_schema lineage_row) (target_table lineage_row)"
  by (auto simp: make_filtered_target_def run_database_urn_def Let_def split: if_splits)

lemma external_table_edge_with_logs [simp]:
  "external_table_edge (with_logs self a w st) = external_table_edge self"
  by (simp add: external_table_edge_def fun_eq_iff)

lemma external_tables_of_schema_none:
  assumes "\<not> list_ex is_external tables"
  shows "external_tables_of_schema schemas_by_db schema_name tables self = Inr self"
  using assms by (induction tables) (simp_all add: is_external_def)

lemma external_tables_of_schema_ok:
  assumes "map_of schemas_by_db (database self) = Some schemas"
    and "map_of schemas schema_name = Some schema"
  shows "external_tables_of_schema schemas_by_db schema_name tables (with_logs self a w st) =
     Inr (with_logs self
            (a @ map (external_table_edge self schema_name schema) (filter is_external tables))
            w st)"
  using assms
  by (induction tables arbitrary: a)
    (simp_all add: is_external_def external_table_edge_def Let_def
       make_dataset_urn_with_platform_instance_def create_from_ids_def)

lemma external_table_edges_with_logs [simp]:
  "external_table_edges (with_logs self a w st) = external_table_edges self"
  by (simp add: external_table_edges_def fun_eq_iff)

lemma external_tables_of_schemas_ok:
  assumes "schemas_declared schemas_by_db (database self) schemas"
  shows "external_tables_of_schemas schemas_by_db schemas (with_logs self a w st) =
     Inr (with_logs self (a @ external_table_edges self schemas_by_db schemas) w st)"
  using assms
proof (induction schemas arbitrary: a)
  case Nil
  show ?case by (simp add: external_table_edges_def)
next
  case (Cons entry schemas)
  obtain schema_name tables where entry: "entry = (schema_name, tables)"
    by (cases entry) auto
  have rest: "schemas_declared schemas_by_db (database self) schemas"
    using Cons.prems by (simp add: schemas_declared_def)
  show ?case
  proof (cases "list_ex is_external tables")
    case False
    then have "filter is_external tables = []"
      by (simp add: list_ex_iff filter_empty_conv)
    then show ?thesis
      using external_tables_of_schema_none [OF False] Cons.IH [OF rest]
      by (simp add: entry external_table_edges_def)
  next
    case True
    then obtain declared schema where
      d: "map_of schemas_by_db (database self) = Some declared"
      and s: "map_of declared schema_name = Some schema"
      using Cons.prems by (auto simp: schemas_declared_def entry split: option.splits)
    show ?thesis
      using external_tables_of_schema_ok [OF d s] Cons.IH [OF rest]
      by (simp add: entry external_table_edges_def d s)
  qed
qed

lemma downstream_registered_mono:
  "downstream_registered A f \<Longrightarrow> A \<subseteq> B \<Longrightarrow> downstream_registered B f"
  by (auto simp: downstream_registered_def split: option.splits)

lemma list_all_downstream_mono:
  "list_all (downstream_registered A) fs \<Longrightarrow> A \<subseteq> B \<Longrightarrow> list_all (downstream_registered B) fs"
  by (auto simp: list_all_iff intro: downstream_registered_mono)

lemma external_table_edge_registered:
  "downstream_registered (schema_urns self schema_name (table # tables))
     (external_table_edge self schema_name schema table)"
  by (simp add: downstream_registered_def known_edge_downstream_def external_table_edge_def
        schema_urns_def create_from_ids_def)

lemma external_tables_of_schema_step:
  assumes "table_type table = ''EXTERNAL_TABLE''"
    and "map_of schemas_by_db (database self) = Some schemas"
    and "map_of schemas schema_name = Some schema"
  shows "external_tables_of_schema schemas_by_db schema_name (table # tables)
           (with_logs self a w st) =
         external_tables_of_schema schemas_by_db schema_name tables
           (with_logs self (a @ [external_table_edge self schema_name schema table]) w st)"
  using assms
  by (simp add: Let_def external_table_edge_def make_dataset_urn_with_platform_instance_def
        create_from_ids_def)

lemma external_tables_of_schema_facts:
  "\<exists>fs. state_of (external_tables_of_schema schemas_by_db schema_name tables
              (with_logs self a w st)) = with_logs self (a @ fs) w st \<and>
     list_all (downstream_registered (schema_urns self schema_name tables)) fs"
proof (induction tables arbitrary: a)
  case Nil
  have "state_of (external_tables_of_schema schemas_by_db schema_name []
              (with_logs self a w st)) = with_logs self (a @ []) w st \<and>
     list_all (downstream_registered (schema_urns self schema_name [])) []"
    by simp
  then show ?case by (rule exI)
next
  case (Cons table tables)
  have sub: "schema_urns self schema_name tables \<subseteq> schema_urns self schema_name (table # tables)"
    by (auto simp: schema_urns_def)
  have stop: "\<exists>fs. with_logs self a w st = with_logs self (a @ fs) w st \<and>
     list_all (downstream_registered (schema_urns self schema_name (table # tables))) fs"
    by (rule exI [of _ "[]"]) simp
  show ?case
  proof (cases "table_type table = ''EXTERNAL_TABLE''")
    case False
    obtain fs where
      fs: "state_of (external_tables_of_schema schemas_by_db schema_name tables
              (with_logs self a w st)) = with_logs self (a @ fs) w st"
      and reg: "list_all (downstream_registered (schema_urns self schema_name tables)) fs"
      using Cons.IH [of a] by blast
    have "state_of (external_tables_of_schema schemas_by_db schema_name (table # tables)
              (with_logs self a w st)) = with_logs self (a @ fs) w st"
      using False fs by simp
    moreover have "list_all (downstream_registered (schema_urns self schema_name (table # tables))) fs"
      using reg sub by (rule list_all_downstream_mono)
    ultimately show ?thesis by blast
  next
    case True
    show ?thesis
    proof (cases "map_of schemas_by_db (database self)")
      case None
      then show ?thesis using True stop by simp
    next
      case (Some schemas)
      note declared = this
      show ?thesis
      proof (cases "map_of schemas schema_name")
        case None
        then show ?thesis using True declared stop by simp
      next
        case (Some schema)
        let ?edge = "external_table_edge self schema_name schema table"
        obtain fs where
          fs: "state_of (external_tables_of_schema schemas_by_db schema_name tables
                 (with_logs self (a @ [?edge]) w st)) = with_logs self ((a @ [?edge]) @ fs) w st"
          and reg: "list_all (downstream_registered (schema_urns self schema_name tables)) fs"
          using Cons.IH [of "a @ [?edge]"] by blast
        have "state_of (external_tables_of_schema schemas_by_db schema_name (table # tables)
                 (with_logs self a w st)) = with_logs self (a @ (?edge # fs)) w st"
          unfolding external_tables_of_schema_step [OF True declared Some] using fs by simp
        moreover have "list_all (downstream_registered (schema_urns self schema_name (table # tables)))
                 (?edge # fs)"
          using list_all_downstream_mono [OF reg sub] external_table_edge_registered
          by simp
        ultimately show ?thesis by blast
      qed
    qed
  qed
qed

lemma build_known_urns_iff:
  "u \<in> build_known_urns self tables_by_db \<longleftrightarrow>
     (\<exists>entry \<in> set tables_by_db. \<exists>sch \<in> set (snd entry). \<exists>table \<in> set (snd sch).
        u = create_from_ids (platform self)
              (fst entry @ ''.'' @ fst sch @ ''.'' @ name table)
              (env (config self)) (platform_instance (config self)))"
  by (simp only: build_known_urns_def set_concat set_map UN_iff image_iff bex_simps split_beta)

lemma schema_urns_subset:
  assumes "(schema_name, tables) \<in> set schemas"
  shows "schema_urns self schema_name tables
           \<subseteq> build_known_urns self [(database self, schemas)]"
proof
  fix u assume "u \<in> schema_urns self schema_name tables"
  then obtain table where t: "table \<in> set tables"
    and u: "u = create_from_ids (platform self)
                 (database self @ ''.'' @ schema_name @ ''.'' @ name table)
                 (env (config self)) (platform_instance (config self))"
    unfolding schema_urns_def by blast
  have e: "(database self, schemas) \<in> set [(database self, schemas)]" by simp
  show "u \<in> build_known_urns self [(database self, schemas)]"
    unfolding build_known_urns_iff using e assms t u
    by (intro bexI [of _ "(database self, schemas)"] bexI [of _ "(schema_name, tables)"]
          bexI [of _ table]) (simp_all only: fst_conv snd_conv)
qed

lemma build_known_urns_subset:
  assumes "(db, schemas) \<in> set tables_by_db"
  shows "build_known_urns self [(db, schemas)] \<subseteq> build_known_urns self tables_by_db"
proof
  fix u assume "u \<in> build_known_urns self [(db, schemas)]"
  then obtain sch table where "sch \<in> set schemas" "table \<in> set (snd sch)"
    "u = create_from_ids (platform self) (db @ ''.'' @ fst sch @ ''.'' @ name table)
              (env (config self)) (platform_instance (config self))"
    unfolding build_known_urns_iff by (simp only: list.set bex_simps insert_iff empty_iff fst_conv snd_conv) blast
  then show "u \<in> build_known_urns self tables_by_db"
    unfolding build_known_urns_iff using assms
    by (intro bexI [of _ "(db, schemas)"] bexI [of _ sch] bexI [of _ table]) (simp_all only: fst_conv snd_conv)
qed

lemma build_known_urns_tail:
  "build_known_urns self [(db, schemas)] \<subseteq> build_known_urns self [(db, entry # schemas)]"
proof
  fix u assume "u \<in> build_known_urns self [(db, schemas)]"
  then obtain sch table where s: "sch \<in> set schemas" and t: "table \<in> set (snd sch)"
    and u: "u = create_from_ids (platform self) (db @ ''.'' @ fst sch @ ''.'' @ name table)
              (env (config self)) (platform_instance (config self))"
    unfolding build_known_urns_iff by (simp only: list.set bex_simps insert_iff empty_iff fst_conv snd_conv) blast
  have s': "sch \<in> set (entry # schemas)" using s by simp
  have e: "(db, entry # schemas) \<in> set [(db, entry # schemas)]" by simp
  show "u \<in> build_known_urns self [(db, entry # schemas)]"
    unfolding build_known_urns_iff using e s' t u
    by (intro bexI [of _ "(db, entry # schemas)"] bexI [of _ sch] bexI [of _ table])
      (simp_all only: fst_conv snd_conv)
qed

lemma external_tables_of_schemas_facts:
  "\<exists>fs. state_of (external_tables_of_schemas schemas_by_db schemas
              (with_logs self a w st)) = with_logs self (a @ fs) w st \<and>
     list_all (downstream_registered (build_known_urns self [(database self, schemas)])) fs"
proof (induction schemas arbitrary: a)
  case Nil
  have "state_of (external_tables_of_schemas schemas_by_db []
              (with_logs self a w st)) = with_logs self (a @ []) w st \<and>
     list_all (downstream_registered (build_known_urns self [(database self, [])])) []"
    by simp
  then show ?case by (rule exI)
next
  case (Cons entry schemas)
  obtain schema_name tables where entry: "entry = (schema_name, tables)"
    by (cases entry) auto
  let ?R = "build_known_urns self [(database self, entry # schemas)]"
  have sub1: "schema_urns self schema_name tables \<subseteq> ?R"
    by (rule schema_urns_subset) (simp add: entry)
  have sub2: "build_known_urns self [(database self, schemas)] \<subseteq> ?R"
    by (rule build_known_urns_tail)
  obtain fs where
    fs: "state_of (external_tables_of_schema schemas_by_db schema_name tables
              (with_logs self a w st)) = with_logs self (a @ fs) w st"
    and reg: "list_all (downstream_registered (schema_urns self schema_name tables)) fs"
    using external_tables_of_schema_facts by blast
  have regR: "list_all (downstream_registered ?R) fs"
    using reg sub1 by (rule list_all_downstream_mono)
  show ?case
  proof (cases "external_tables_of_schema schemas_by_db schema_name tables
              (with_logs self a w st)")
    case (Inl x)
    then have "state_of (external_tables_of_schemas schemas_by_db (entry # schemas)
              (with_logs self a w st)) = with_logs self (a @ fs) w st"
      using fs by (simp add: entry)
    then show ?thesis using regR by blast
  next
    case (Inr self')
    then have self': "self' = with_logs self (a @ fs) w st" using fs by simp
    obtain gs where
      gs: "state_of (external_tables_of_schemas schemas_by_db schemas
              (with_logs self (a @ fs) w st)) = with_logs self ((a @ fs) @ gs) w st"
      and regg: "list_all (downstream_registered (build_known_urns self [(database self, schemas)])) gs"
      using Cons.IH [of "a @ fs"] by blast
    have "state_of (external_tables_of_schemas schemas_by_db (entry # schemas)
              (with_logs self a w st)) = with_logs self (a @ (fs @ gs)) w st"
      using Inr self' gs by (simp add: entry)
    moreover have "list_all (downstream_registered ?R) (fs @ gs)"
      using regR list_all_downstream_mono [OF regg sub2] by simp
    ultimately show ?thesis by blast
  qed
qed

lemma add_temp_rows_with_logs:
  "add_temp_rows rows (with_logs self a w st) =
     with_logs self
       (a @ map (\<lambda>temp_row. ObservedQuery (temp_query_text temp_row) (database self)
                   (default_schema (config self)) (Some (temp_session_id temp_row))
                   (Some (temp_start_time temp_row)) True) rows) w st"
  by (induction rows arbitrary: a) simp_all

lemma add_table_renames_with_logs:
  "add_table_renames renames (with_logs self a w st) =
     with_logs self (a @ map (\<lambda>(new_urn, original_urn). TableRename original_urn new_urn) renames)
       w st"
  by (induction renames arbitrary: a) auto

lemma external_tables_of_schema_raises:
  assumes "list_ex is_external tables"
    and "case map_of schemas_by_db (database self) of
           None \<Rightarrow> True
         | Some declared \<Rightarrow> map_of declared schema_name = None"
  shows "raised (external_tables_of_schema schemas_by_db schema_name tables
                   (with_logs self a w st)) \<noteq> None"
  using assms
  by (induction tables) (auto simp: is_external_def split: option.splits)

lemma external_tables_of_schemas_raises:
  assumes "\<not> schemas_declared schemas_by_db (database self) schemas"
  shows "raised (external_tables_of_schemas schemas_by_db schemas (with_logs self a w st)) \<noteq> None"
  using assms
proof (induction schemas arbitrary: a)
  case Nil
  then show ?case by (simp add: schemas_declared_def)
next
  case (Cons entry schemas)
  obtain schema_name tables where entry: "entry = (schema_name, tables)"
    by (cases entry) auto
  let ?declared = "case map_of schemas_by_db (database self) of
             None \<Rightarrow> False
           | Some declared \<Rightarrow> map_of declared schema_name \<noteq> None"
  show ?case
  proof (cases "list_ex is_external tables \<and> \<not> ?declared")
    case True
    then have "raised (external_tables_of_schema schemas_by_db schema_name tables
                   (with_logs self a w st)) \<noteq> None"
      by (intro external_tables_of_schema_raises) (auto split: option.splits)
    then show ?thesis
      by (auto simp: entry raised_def split: sum.splits)
  next
    case False
    then have rest: "\<not> schemas_declared schemas_by_db (database self) schemas"
      using Cons.prems by (auto simp: schemas_declared_def entry)
    have "\<exists>a'. external_tables_of_schema schemas_by_db schema_name tables
                   (with_logs self a w st) = Inr (with_logs self a' w st)"
    proof (cases "list_ex is_external tables")
      case no: False
      show ?thesis
        using external_tables_of_schema_none [OF no] by blast
    next
      case yes: True
      then obtain declared schema where
        "map_of schemas_by_db (database self) = Some declared"
        "map_of declared schema_name = Some schema"
        using False by (auto split: option.splits)
      then show ?thesis
        using external_tables_of_schema_ok by blast
    qed
    then obtain a' where "external_tables_of_schema schemas_by_db schema_name tables
                   (with_logs self a w st) = Inr (with_logs self a' w st)" by blast
    then show ?thesis
      using Cons.IH [OF rest, of a'] by (simp add: entry)
  qed
qed

lemma process_external_tables_raised:
  "raised (process_external_tables tables_by_db schemas_by_db (with_logs self a w st)) = None
     \<longleftrightarrow> (case map_of tables_by_db (database self) of
            None \<Rightarrow> False
          | Some schemas \<Rightarrow> schemas_declared schemas_by_db (database self) schemas)"
proof (cases "map_of tables_by_db (database self)")
  case None
  then show ?thesis by (simp add: process_external_tables_def)
next
  case (Some schemas)
  show ?thesis
  proof (cases "schemas_declared schemas_by_db (database self) schemas")
    case True
    then show ?thesis
      by (simp add: process_external_tables_def Some external_tables_of_schemas_ok)
  next
    case False
    then show ?thesis
      using external_tables_of_schemas_raises [OF False]
      by (simp add: process_external_tables_def Some)
  qed
qed

lemma populate_calls_with_logs [simp]:
  "populate_calls (with_logs self a w st) = populate_calls self"
  by (simp add: populate_calls_def)

lemma build_known_urns_update [simp]:
  "build_known_urns (self\<lparr>known_urns := registry\<rparr>) tables_by_db =
     build_known_urns self tables_by_db"
  by (simp add: build_known_urns_def)

lemma dispatch_logs:
  assumes "\<forall>call \<in> set calls. context_only (snd (snd call))"
  shows "dispatch conn calls self =
     with_logs self
       (aggregator self @ concat (map (\<lambda>call. fst (kind_output conn self call)) calls))
       (report_warnings self @ concat (map (kind_warning conn self) calls))
       (report_status self @ concat (map (kind_status conn self) calls))"
  using dispatch_with_logs [OF assms, where self = self and a = "aggregator self"
      and w = "report_warnings self" and st = "report_status self" and conn = conn]
  by simp

lemma raised_stream_rows:
  assumes "context_only proc"
  shows "raised (stream_rows proc (with_logs self a w st) rows fault) =
           snd (stream_output proc self rows fault)"
  by (simp add: stream_rows_with_logs [OF assms] split: option.splits)

lemma database_add_known_lineage_mapping [simp]:
  "database (add_known_lineage_mapping up down self) = database self"
  by (simp add: add_known_lineage_mapping_def)

lemma external_tables_of_schema_database:
  assumes "external_tables_of_schema schemas_by_db schema_name tables self = Inr self'"
  shows "database self' = database self"
proof -
  obtain fs where "state_of (external_tables_of_schema schemas_by_db schema_name tables
      (with_logs self (aggregator self) (report_warnings self) (report_status self))) =
      with_logs self (aggregator self @ fs) (report_warnings self) (report_status self)"
    using external_tables_of_schema_facts by blast
  then show ?thesis using assms by simp
qed

lemma raised_external_tables_of_schema:
  assumes "database self = database self'"
  shows "raised (external_tables_of_schema schemas_by_db schema_name tables self) =
         raised (external_tables_of_schema schemas_by_db schema_name tables self')"
  using assms
proof (induction tables arbitrary: self self')
  case Nil
  show ?case by simp
next
  case (Cons table tables)
  show ?case
  proof (cases "table_type table = ''EXTERNAL_TABLE''")
    case False
    then show ?thesis using Cons.IH [OF Cons.prems] by simp
  next
    case True
    show ?thesis
    proof (cases "map_of schemas_by_db (database self)")
      case None
      then show ?thesis using True Cons.prems by simp
    next
      case (Some schemas)
      note declared = this
      show ?thesis
      proof (cases "map_of schemas schema_name")
        case None
        then show ?thesis using True declared Cons.prems by simp
      next
        case (Some schema)
        have "raised (external_tables_of_schema schemas_by_db schema_name tables
                 (add_known_lineage_mapping up down self)) =
              raised (external_tables_of_schema schemas_by_db schema_name tables
                 (add_known_lineage_mapping up' down' self'))" for up down up' down'
          by (rule Cons.IH) (simp add: Cons.prems)
        then show ?thesis
          using True declared Some Cons.prems by (simp add: Let_def)
      qed
    qed
  qed
qed

lemma raised_external_tables_of_schemas:
  assumes "database self = database self'"
  shows "raised (external_tables_of_schemas schemas_by_db schemas self) =
         raised (external_tables_of_schemas schemas_by_db schemas self')"
  using assms
proof (induction schemas arbitrary: self self')
  case Nil
  show ?case by simp
next
  case (Cons entry schemas)
  obtain schema_name tables where entry: "entry = (schema_name, tables)"
    by (cases entry) auto
  have inner: "raised (external_tables_of_schema schemas_by_db schema_name tables self) =
         raised (external_tables_of_schema schemas_by_db schema_name tables self')"
    using Cons.prems by (rule raised_external_tables_of_schema)
  show ?case
  proof (cases "external_tables_of_schema schemas_by_db schema_name tables self")
    case (Inl x)
    obtain e t where x: "x = (e, t)" by (cases x) auto
    with Inl inner have "raised (external_tables_of_schema schemas_by_db schema_name tables self')
        = Some e" by simp
    then obtain t' where "external_tables_of_schema schemas_by_db schema_name tables self'
        = Inl (e, t')"
      by (auto simp: raised_def split: sum.splits)
    then show ?thesis using Inl x by (simp add: entry)
  next
    case (Inr s1)
    with inner have "raised (external_tables_of_schema schemas_by_db schema_name tables self')
        = None" by simp
    then obtain s1' where r': "external_tables_of_schema schemas_by_db schema_name tables self'
        = Inr s1'"
      by (auto simp: raised_def split: sum.splits)
    have "database s1 = database s1'"
      using external_tables_of_schema_database [OF Inr]
        external_tables_of_schema_database [OF r'] Cons.prems by simp
    then have "raised (external_tables_of_schemas schemas_by_db schemas s1) =
         raised (external_tables_of_schemas schemas_by_db schemas s1')"
      by (rule Cons.IH)
    then show ?thesis using Inr r' by (simp add: entry)
  qed
qed

lemma raised_process_external_tables:
  assumes "database self = database self'"
  shows "raised (process_external_tables tables_by_db schemas_by_db self) =
         raised (process_external_tables tables_by_db schemas_by_db self')"
  using raised_external_tables_of_schemas [OF assms] assms
  by (simp add: process_external_tables_def split: option.splits)

lemma raised_resolve_temp_tables:
  "raised (resolve_temp_tables conn self) =
     (if resolve_temp_table_in_lineage (config self)
      then snd (get_temp_tables (lineage_v1 self) conn) else None)"
  by (simp add: resolve_temp_tables_def split: prod.splits option.splits)

lemma resolve_temp_tables_InrD:
  assumes "resolve_temp_tables conn (with_logs self a w st) = Inr self2"
  shows "\<exists>a2. self2 = with_logs self a2 w st"
  using assms
  by (auto simp: resolve_temp_tables_def add_temp_rows_with_logs
        split: if_splits prod.splits option.splits)

lemma raised_table_rename_lineage:
  "raised (table_rename_lineage conn self) =
     (if include_table_rename_lineage (config self)
      then (case process_table_renames (lineage_v1 self) (database self) conn of
              Inl e \<Rightarrow> Some e | Inr renames \<Rightarrow> None)
      else None)"
  by (simp add: table_rename_lineage_def split: sum.splits)

lemma table_rename_lineage_InrD:
  assumes "table_rename_lineage conn (with_logs self a w st) = Inr self3"
  shows "\<exists>a3. self3 = with_logs self a3 w st"
  using assms
  by (auto simp: table_rename_lineage_def add_table_renames_with_logs
        split: if_splits sum.splits)

section \<open>The small catalog, evaluated\<close>

lemma known_urns_example:
  "known_urns example_self =
     {DatasetUrn ''redshift'' ''db.public.orders'' ''PROD'' None,
      DatasetUrn ''redshift'' ''db.public.customers'' ''PROD'' None,
      DatasetUrn ''redshift'' ''db.ext_schema.ext_tbl'' ''PROD'' None}"
  by (simp add: example_self_def init_def build_known_urns_def example_tables_def
        example_config_def create_from_ids_def)

lemma example_self_sel:
  "platform example_self = ''redshift''"
  "database example_self = ''db''"
  "config example_self = example_config"
  "lineage_v1 example_self = example_v1"
  "aggregator example_self = []"
  "report_warnings example_self = []"
  "start_time example_self = 0"
  "end_time example_self = 100"
  by (simp_all add: example_self_def init_def example_v1_def)

lemma example_config_sel:
  "env example_config = ''PROD''"
  "platform_instance example_config = None"
  "default_schema example_config = ''public''"
  "platform_instance_map example_config = None"
  by (simp_all add: example_config_def)

lemma mft_example: "make_filtered_target example_self scan_row =
     Some (DatasetUrn ''redshift'' ''db.public.orders'' ''PROD'' None)"
  by (simp add: make_filtered_target_def known_urns_example example_self_sel
        example_config_sel scan_row_def py_str_def create_from_ids_def)

lemma mft_empty_row: "make_filtered_target example_self empty_row = None"
  by (simp add: make_filtered_target_def known_urns_example example_self_sel
        example_config_sel empty_row_def py_str_def create_from_ids_def)

lemma scan_row_sel:
  "source_schema scan_row = Some ''public''" "source_table scan_row = Some ''customers''"
  "target_schema scan_row = Some ''public''" "target_table scan_row = Some ''orders''"
  "ddl scan_row = Some ''INSERT INTO orders SELECT * FROM customers''"
  "filename scan_row = None" "timestamp scan_row = Some 7" "session_id scan_row = None"
  by (simp_all add: scan_row_def)

lemma example_ext_lookup:
  "map_of example_tables ''db'' =
     Some [(''public'', [\<lparr>name = ''orders'', table_type = ''TABLE''\<rparr>,
                          \<lparr>name = ''customers'', table_type = ''TABLE''\<rparr>]),
           (''ext_schema'', [\<lparr>name = ''ext_tbl'', table_type = ''EXTERNAL_TABLE''\<rparr>])]"
  by (simp add: example_tables_def)

lemma lower_glue: "lower ''glue'' = ''glue''"
  by code_simp

lemma copy_example:
  "new_facts example_self (state_of (process_copy_command example_self copy_row)) =
     [KnownLineageMapping (DatasetUrn ''s3'' ''s3://bucket/file.csv'' ''PROD'' None)
        (DatasetUrn ''redshift'' ''db.public.orders'' ''PROD'' None)]"
  by (simp add: process_copy_command_def make_filtered_target_def known_urns_example
        example_self_sel example_config_sel example_v1_def create_from_ids_def py_str_def
        falsy_def copy_row_def)

lemma scan_example:
  "new_facts example_self (state_of (process_stl_scan_lineage example_self scan_row)) =
     [KnownQueryLineage ''INSERT INTO orders SELECT * FROM customers''
        (DatasetUrn ''redshift'' ''db.public.orders'' ''PROD'' None)
        [DatasetUrn ''redshift'' ''db.public.customers'' ''PROD'' None] (Some 7) True]"
  by (simp add: process_stl_scan_lineage_def mft_example scan_row_sel example_self_sel
        example_config_sel create_from_ids_def py_str_def)

lemma external_example:
  "process_external_tables example_tables example_schemas example_self =
     Inr (example_self\<lparr>aggregator :=
       [KnownLineageMapping (DatasetUrn ''glue'' ''raw.ext_tbl'' ''PROD'' None)
          (DatasetUrn ''redshift'' ''db.ext_schema.ext_tbl'' ''PROD'' None)]\<rparr>)"
  by (simp add: process_external_tables_def example_tables_def example_schemas_def
        example_self_sel example_config_sel lower_glue py_str_def Let_def
        make_dataset_urn_with_platform_instance_def create_from_ids_def
        add_known_lineage_mapping_def)

lemma populate_quiet [simp]:
  "populate_lineage_agg q lineage_type proc quiet_connection self = self"
  by (simp add: populate_lineage_agg_def get_lineage_rows_def quiet_connection_def)

lemma dispatch_quiet [simp]: "dispatch quiet_connection calls self = self"
  by (induction calls) auto

lemma example_calls:
  "populate_calls example_self =
     [(QUERY_SQL_PARSER, list_insert_create_queries_sql ''db'' 0 100, process_sql_parser_lineage),
      (QUERY_SCAN, stl_scan_based_lineage_query ''db'' 0 100, process_stl_scan_lineage),
      (VIEW, view_lineage_query, process_view_lineage),
      (VIEW_DDL_SQL_PARSING, list_late_view_ddls_query, process_view_lineage),
      (COPY, list_copy_commands_sql ''db'' 0 100, process_copy_command),
      (UNLOAD, list_unload_commands_sql ''db'' 0 100, process_unload_command)]"
  by (simp add: populate_calls_def example_self_sel example_config_def)

lemma faulty_elsewhere:
  "\<forall>q. q \<noteq> fst (snd (populate_calls example_self ! 1)) \<longrightarrow>
       faulty_connection q = example_connection q"
  by (simp add: example_calls faulty_connection_def)

lemma copy_contribution:
  "contributed example_connection (populate_calls example_self) example_self 4 =
     [KnownLineageMapping (DatasetUrn ''s3'' ''s3://bucket/file.csv'' ''PROD'' None)
        (DatasetUrn ''redshift'' ''db.public.orders'' ''PROD'' None)]"
proof -
  have "contributed example_connection (populate_calls example_self) example_self 4 =
      fst (kind_output example_connection example_self (populate_calls example_self ! 4))"
    by (rule contributed_eq [OF populate_calls_context_only]) (simp add: example_calls)
  also have "\<dots> = fst (stream_output process_copy_command example_self [copy_row] None)"
    by (simp add: example_calls kind_output_def get_lineage_rows_def example_connection_def)
  also have "\<dots> = [KnownLineageMapping (DatasetUrn ''s3'' ''s3://bucket/file.csv'' ''PROD'' None)
        (DatasetUrn ''redshift'' ''db.public.orders'' ''PROD'' None)]"
    by (simp add: row_output_def process_copy_command_def make_filtered_target_def
          known_urns_example example_self_sel example_config_sel example_v1_def
          create_from_ids_def py_str_def falsy_def copy_row_def)
  finally show ?thesis .
qed

section \<open>The claims\<close>

subsection \<open>C1: known edges point into the registry\<close>

text \<open>
  C1: every fact that \<open>_process_stl_scan_lineage\<close> or \<open>_process_copy_command\<close> adds for a
  row, and every fact that \<open>_process_external_tables\<close> adds when the registry is the one
  \<open>build\<close> makes from the same catalog snapshot (also when it stops on a \<open>KeyError\<close>), is a
  known edge whose downstream identifier is in \<open>known_urns\<close>.
\<close>

theorem known_edge_downstream_registered:
  "list_all (downstream_registered (known_urns self))
     (new_facts self (state_of (process_stl_scan_lineage self lineage_row))) \<and>
   list_all (downstream_registered (known_urns self))
     (new_facts self (state_of (process_copy_command self lineage_row))) \<and>
   (known_urns self = build_known_urns self tables_by_db \<longrightarrow>
    list_all (downstream_registered (known_urns self))
      (new_facts self (state_of (process_external_tables tables_by_db schemas_by_db self))))"
proof -
  have scan: "list_all (downstream_registered (known_urns self))
     (new_facts self (state_of (process_stl_scan_lineage self lineage_row)))"
    by (auto simp: process_stl_scan_lineage_def downstream_registered_def
          known_edge_downstream_def Let_def dest: make_filtered_target_SomeD(1)
          split: option.splits)
  have copy: "list_all (downstream_registered (known_urns self))
     (new_facts self (state_of (process_copy_command self lineage_row)))"
    by (auto simp: process_copy_command_def downstream_registered_def
          known_edge_downstream_def dest: make_filtered_target_SomeD(1)
          split: option.splits list.splits)
  have ext: "list_all (downstream_registered (known_urns self))
      (new_facts self (state_of (process_external_tables tables_by_db schemas_by_db self)))"
    if reg: "known_urns self = build_known_urns self tables_by_db"
  proof (cases "map_of tables_by_db (database self)")
    case None
    then show ?thesis by (simp add: process_external_tables_def)
  next
    case (Some schemas)
    then have mem: "(database self, schemas) \<in> set tables_by_db"
      by (rule map_of_SomeD)
    obtain fs where
      fs: "state_of (external_tables_of_schemas schemas_by_db schemas
              (with_logs self (aggregator self) (report_warnings self) (report_status self))) =
            with_logs self (aggregator self @ fs) (report_warnings self) (report_status self)"
      and all: "list_all (downstream_registered
                  (build_known_urns self [(database self, schemas)])) fs"
      using external_tables_of_schemas_facts by blast
    have new: "new_facts self
        (state_of (process_external_tables tables_by_db schemas_by_db self)) = fs"
      using fs by (simp add: process_external_tables_def Some new_facts_def)
    have "list_all (downstream_registered (known_urns self)) fs"
      unfolding reg using all build_known_urns_subset [OF mem]
      by (rule list_all_downstream_mono)
    then show ?thesis by (simp only: new)
  qed
  show ?thesis using scan copy ext by blast
qed

theorem known_edge_downstream_registered_witness:
  "known_urns example_self = build_known_urns example_self example_tables \<and>
   list_all (downstream_registered (known_urns example_self))
     [KnownQueryLineage ''INSERT INTO orders SELECT * FROM customers''
        (DatasetUrn ''redshift'' ''db.public.orders'' ''PROD'' None)
        [DatasetUrn ''redshift'' ''db.public.customers'' ''PROD'' None] (Some 7) True] \<and>
   list_all (downstream_registered (known_urns example_self))
     [KnownLineageMapping (DatasetUrn ''s3'' ''s3://bucket/file.csv'' ''PROD'' None)
        (DatasetUrn ''redshift'' ''db.public.orders'' ''PROD'' None)] \<and>
   list_all (downstream_registered (known_urns example_self))
     [KnownLineageMapping (DatasetUrn ''glue'' ''raw.ext_tbl'' ''PROD'' None)
        (DatasetUrn ''redshift'' ''db.ext_schema.ext_tbl'' ''PROD'' None)]"
proof -
  have reg: "known_urns example_self = build_known_urns example_self example_tables"
    by (simp add: example_self_def init_def build_known_urns_def)
  have ext: "new_facts example_self
      (state_of (process_external_tables example_tables example_schemas example_self)) =
       [KnownLineageMapping (DatasetUrn ''glue'' ''raw.ext_tbl'' ''PROD'' None)
          (DatasetUrn ''redshift'' ''db.ext_schema.ext_tbl'' ''PROD'' None)]"
    by (simp add: external_example new_facts_def example_self_sel)
  show ?thesis
    using known_edge_downstream_registered
      [of example_self scan_row example_tables example_schemas]
      known_edge_downstream_registered
      [of example_self copy_row example_tables example_schemas] reg
    unfolding scan_example copy_example ext by blast
qed

subsection \<open>C2: a failing evidence kind does not disturb the others\<close>

text \<open>
  C2: let two connections answer every query alike except the query of the \<open>k\<close>-th evidence
  kind of the run. Then every other kind \<open>i\<close> adds exactly the same facts in both runs of
  the dispatch loop; the aggregator ends with the facts of all kinds, in order; and an
  exception that ends kind \<open>k\<close>, raised by its row source or by its classifier, is in the
  warnings of the report under the key \<open>extract-\<close> followed by the kind's name. The loop
  itself always returns.
\<close>

theorem fault_isolation:
  assumes "k < length (populate_calls self)" and "i < length (populate_calls self)"
    and "i \<noteq> k"
    and "\<forall>q. q \<noteq> fst (snd (populate_calls self ! k)) \<longrightarrow> conn' q = conn q"
  shows "contributed conn' (populate_calls self) self i =
           contributed conn (populate_calls self) self i \<and>
         aggregator (dispatch conn' (populate_calls self) self) =
           aggregator self @
           concat (map (contributed conn' (populate_calls self) self)
                     [0..<length (populate_calls self)]) \<and>
         (\<forall>e. raised (stream_rows (snd (snd (populate_calls self ! k)))
                        (dispatch conn' (take k (populate_calls self)) self)
                        (fst (get_lineage_rows conn' (fst (snd (populate_calls self ! k)))))
                        (snd (get_lineage_rows conn' (fst (snd (populate_calls self ! k))))))
                = Some e \<longrightarrow>
              (''extract-'' @ collector_name (fst (populate_calls self ! k)), e)
                \<in> set (report_warnings (dispatch conn' (populate_calls self) self)))"
proof -
  let ?calls = "populate_calls self"
  note co = populate_calls_context_only [of self]
  have cot: "\<forall>call \<in> set (take n ?calls). context_only (snd (snd call))" for n
    using co by (meson in_set_takeD)
  have "map (\<lambda>call. fst (snd call)) ?calls ! i \<noteq> map (\<lambda>call. fst (snd call)) ?calls ! k"
    using nth_eq_iff_index_eq [OF populate_calls_distinct [of self], of i k] assms(1-3)
    by simp
  then have "fst (snd (?calls ! i)) \<noteq> fst (snd (?calls ! k))"
    using assms(1,2) by simp
  then have same: "conn' (fst (snd (?calls ! i))) = conn (fst (snd (?calls ! i)))"
    using assms(4) by blast
  have one: "contributed conn' ?calls self i = contributed conn ?calls self i"
    by (simp only: contributed_eq [OF co assms(2)]
          kind_output_cong [where call = "?calls ! i" and conn' = conn' and conn = conn, OF same])
  have "map (contributed conn' ?calls self) [0..<length ?calls] =
        map (\<lambda>j. fst (kind_output conn' self (?calls ! j))) [0..<length ?calls]"
    by (rule map_cong) (simp_all add: contributed_eq [OF co])
  also have "\<dots> = map (\<lambda>call. fst (kind_output conn' self call))
                     (map (\<lambda>j. ?calls ! j) [0..<length ?calls])"
    by (simp only: map_map comp_def)
  also have "\<dots> = map (\<lambda>call. fst (kind_output conn' self call)) ?calls"
    by (simp only: map_nth)
  finally have two: "aggregator (dispatch conn' ?calls self) =
           aggregator self @ concat (map (contributed conn' ?calls self) [0..<length ?calls])"
    by (simp add: dispatch_logs [OF co])
  have three: "(''extract-'' @ collector_name (fst (?calls ! k)), e)
                \<in> set (report_warnings (dispatch conn' ?calls self))"
    if r: "raised (stream_rows (snd (snd (?calls ! k)))
                        (dispatch conn' (take k ?calls) self)
                        (fst (get_lineage_rows conn' (fst (snd (?calls ! k)))))
                        (snd (get_lineage_rows conn' (fst (snd (?calls ! k)))))) = Some e" for e
  proof -
    have mem: "?calls ! k \<in> set ?calls" using assms(1) by simp
    then have cok: "context_only (snd (snd (?calls ! k)))" using co by blast
    have "snd (kind_output conn' self (?calls ! k)) = Some e"
      using r unfolding dispatch_logs [OF cot] raised_stream_rows [OF cok]
      by (cases "?calls ! k") (simp add: kind_output_def)
    then have "kind_warning conn' self (?calls ! k) =
        [(''extract-'' @ collector_name (fst (?calls ! k)), e)]"
      by (simp add: kind_warning_def)
    then have here: "(''extract-'' @ collector_name (fst (?calls ! k)), e)
        \<in> set (kind_warning conn' self (?calls ! k))"
      by simp
    have "kind_warning conn' self (?calls ! k) \<in> set (map (kind_warning conn' self) ?calls)"
      unfolding set_map using mem by (rule imageI)
    then have "(''extract-'' @ collector_name (fst (?calls ! k)), e)
        \<in> set (concat (map (kind_warning conn' self) ?calls))"
      unfolding set_concat using here by (rule UN_I)
    then show ?thesis
      by (simp add: dispatch_logs [OF co] del: append.simps)
  qed
  show ?thesis using one two three by blast
qed

theorem fault_isolation_witness:
  "(1::nat) < length (populate_calls example_self) \<and>
   (4::nat) < length (populate_calls example_self) \<and>
   raised (stream_rows process_stl_scan_lineage
             (dispatch faulty_connection (take 1 (populate_calls example_self)) example_self)
             (fst (get_lineage_rows faulty_connection (stl_scan_based_lineage_query ''db'' 0 100)))
             (snd (get_lineage_rows faulty_connection (stl_scan_based_lineage_query ''db'' 0 100))))
     = Some (QueryError ''stl_scan is not available'') \<and>
   contributed faulty_connection (populate_calls example_self) example_self 4 =
     [KnownLineageMapping (DatasetUrn ''s3'' ''s3://bucket/file.csv'' ''PROD'' None)
        (DatasetUrn ''redshift'' ''db.public.orders'' ''PROD'' None)] \<and>
   (''extract-QUERY_SCAN'', QueryError ''stl_scan is not available'')
     \<in> set (report_warnings
              (dispatch faulty_connection (populate_calls example_self) example_self))"
proof -
  have k: "(1::nat) < length (populate_calls example_self)"
    and i: "(4::nat) < length (populate_calls example_self)"
    by (simp_all add: example_calls)
  have ne: "(4::nat) \<noteq> 1" by simp
  have at_k: "populate_calls example_self ! 1 =
      (QUERY_SCAN, stl_scan_based_lineage_query ''db'' 0 100, process_stl_scan_lineage)"
    by (simp add: example_calls)
  have r: "raised (stream_rows process_stl_scan_lineage
             (dispatch faulty_connection (take 1 (populate_calls example_self)) example_self)
             (fst (get_lineage_rows faulty_connection (stl_scan_based_lineage_query ''db'' 0 100)))
             (snd (get_lineage_rows faulty_connection (stl_scan_based_lineage_query ''db'' 0 100))))
     = Some (QueryError ''stl_scan is not available'')"
    by (simp add: get_lineage_rows_def faulty_connection_def)
  note isolated = fault_isolation [OF k i ne faulty_elsewhere]
  have same: "contributed faulty_connection (populate_calls example_self) example_self 4 =
      contributed example_connection (populate_calls example_self) example_self 4"
    using isolated by blast
  have "\<forall>e. raised (stream_rows process_stl_scan_lineage
             (dispatch faulty_connection (take 1 (populate_calls example_self)) example_self)
             (fst (get_lineage_rows faulty_connection (stl_scan_based_lineage_query ''db'' 0 100)))
             (snd (get_lineage_rows faulty_connection (stl_scan_based_lineage_query ''db'' 0 100))))
            = Some e \<longrightarrow>
          (''extract-'' @ collector_name QUERY_SCAN, e)
            \<in> set (report_warnings
                (dispatch faulty_connection (populate_calls example_self) example_self))"
    using isolated unfolding at_k fst_conv snd_conv by blast
  then have "(''extract-'' @ collector_name QUERY_SCAN, QueryError ''stl_scan is not available'')
            \<in> set (report_warnings
                (dispatch faulty_connection (populate_calls example_self) example_self))"
    using r by blast
  then have warned: "(''extract-QUERY_SCAN'', QueryError ''stl_scan is not available'')
            \<in> set (report_warnings
                (dispatch faulty_connection (populate_calls example_self) example_self))"
    by simp
  show ?thesis
    using k i r same warned unfolding copy_contribution by blast
qed

subsection \<open>C3: what escapes build\<close>

text \<open>
  C3, as stated, fails: \<open>_process_external_tables\<close> runs outside the \<open>try\<close> of
  \<open>_populate_lineage_agg\<close>. With an external table whose schema is missing from
  \<open>db_schemas\<close>, and no row at all, \<open>build\<close> raises \<open>KeyError\<close>.
\<close>

theorem build_external_keyerror_counterexample:
  "raised (build quiet_connection example_tables undeclared_schemas
             (init example_config example_v1 ''db'')) = Some (KeyError ''ext_schema'')"
  by (simp add: build_def resolve_temp_tables_def table_rename_lineage_def
        process_external_tables_def example_tables_def undeclared_schemas_def init_def
        example_config_def example_v1_def add_observed_query_def add_table_rename_def Let_def)

text \<open>
  C3, amended: no exception raised while executing or classifying a row-streamed evidence
  kind escapes \<open>build\<close>. What \<open>build\<close> raises is what the steps outside the \<open>try\<close> of
  \<open>_populate_lineage_agg\<close> raise, whatever the evidence kinds' queries yield or raise: the
  exception of the temp-table step, else of the rename step, else of
  \<open>_process_external_tables\<close>, and none when none of them raises. In particular
  \<open>_process_external_tables\<close> raises when the run's database is not a key of \<open>all_tables\<close>,
  or when a schema of it holds an external table and \<open>db_schemas\<close> lacks the run's database
  or that schema.
\<close>

theorem build_raises_outside_try:
  "raised (build conn tables_by_db schemas_by_db self) =
     (case raised (resolve_temp_tables conn self) of
        Some e \<Rightarrow> Some e
      | None \<Rightarrow>
          (case raised (table_rename_lineage conn self) of
             Some e \<Rightarrow> Some e
           | None \<Rightarrow> raised (process_external_tables tables_by_db schemas_by_db self)))
   \<and> ((case map_of tables_by_db (database self) of
          None \<Rightarrow> True
        | Some schemas \<Rightarrow> \<not> schemas_declared schemas_by_db (database self) schemas)
       \<longrightarrow> raised (process_external_tables tables_by_db schemas_by_db self) \<noteq> None)"
proof -
  define self1 where "self1 = self\<lparr>known_urns := build_known_urns self tables_by_db\<rparr>"
  have ctx: "config self1 = config self" "lineage_v1 self1 = lineage_v1 self"
    "database self1 = database self"
    by (simp_all add: self1_def)
  have base: "self1 = with_logs self1 (aggregator self1) (report_warnings self1)
                        (report_status self1)"
    by simp
  have temp: "raised (resolve_temp_tables conn self1) = raised (resolve_temp_tables conn self)"
    by (simp only: raised_resolve_temp_tables ctx)
  have run: "build conn tables_by_db schemas_by_db self =
      (case resolve_temp_tables conn self1 of
        Inl x \<Rightarrow> Inl x
      | Inr self2 \<Rightarrow>
          (case table_rename_lineage conn self2 of
             Inl x \<Rightarrow> Inl x
           | Inr self3 \<Rightarrow>
               process_external_tables tables_by_db schemas_by_db
                 (dispatch conn (populate_calls self3) self3)))"
    by (simp add: build_def self1_def [symmetric])
  have first: "raised (build conn tables_by_db schemas_by_db self) =
     (case raised (resolve_temp_tables conn self) of
        Some e \<Rightarrow> Some e
      | None \<Rightarrow>
          (case raised (table_rename_lineage conn self) of
             Some e \<Rightarrow> Some e
           | None \<Rightarrow> raised (process_external_tables tables_by_db schemas_by_db self)))"
  proof (cases "resolve_temp_tables conn self1")
    case (Inl x)
    obtain e t where x: "x = (e, t)" by (cases x) auto
    have "raised (resolve_temp_tables conn self) = Some e"
      using Inl x temp by simp
    then show ?thesis using Inl x by (simp add: run)
  next
    case (Inr self2)
    have none: "raised (resolve_temp_tables conn self) = None"
      using Inr temp by simp
    obtain a2 where self2: "self2 = with_logs self1 a2 (report_warnings self1)
          (report_status self1)"
      using resolve_temp_tables_InrD [of conn self1 "aggregator self1" "report_warnings self1"
          "report_status self1" self2] Inr by auto
    have rename: "raised (table_rename_lineage conn self2) =
        raised (table_rename_lineage conn self)"
      by (simp only: raised_table_rename_lineage self2 with_logs_sel ctx)
    show ?thesis
    proof (cases "table_rename_lineage conn self2")
      case inl: (Inl x)
      obtain e t where x: "x = (e, t)" by (cases x) auto
      have "raised (table_rename_lineage conn self) = Some e"
        using inl x rename by simp
      then show ?thesis using Inr inl x none by (simp add: run)
    next
      case inr: (Inr self3)
      have none3: "raised (table_rename_lineage conn self) = None"
        using inr rename by simp
      obtain a3 where self3: "self3 = with_logs self1 a3 (report_warnings self1)
          (report_status self1)"
        using table_rename_lineage_InrD [of conn self1 a2 "report_warnings self1"
            "report_status self1" self3] inr self2 by auto
      have "dispatch conn (populate_calls self3) self3 =
         with_logs self1
           (a3 @ concat (map (\<lambda>call. fst (kind_output conn self1 call)) (populate_calls self1)))
           (report_warnings self1 @ concat (map (kind_warning conn self1) (populate_calls self1)))
           (report_status self1 @ concat (map (kind_status conn self1) (populate_calls self1)))"
        unfolding self3 populate_calls_with_logs
        by (rule dispatch_with_logs [OF populate_calls_context_only])
      then have "database (dispatch conn (populate_calls self3) self3) = database self"
        by (simp add: ctx)
      then have "raised (process_external_tables tables_by_db schemas_by_db
                   (dispatch conn (populate_calls self3) self3)) =
                 raised (process_external_tables tables_by_db schemas_by_db self)"
        by (rule raised_process_external_tables)
      then show ?thesis using Inr inr none none3 by (simp add: run)
    qed
  qed
  have second: "raised (process_external_tables tables_by_db schemas_by_db self) \<noteq> None"
    if "case map_of tables_by_db (database self) of
          None \<Rightarrow> True
        | Some schemas \<Rightarrow> \<not> schemas_declared schemas_by_db (database self) schemas"
    using that process_external_tables_raised [of tables_by_db schemas_by_db self
        "aggregator self" "report_warnings self" "report_status self"]
    by (auto split: option.splits)
  show ?thesis using first second by blast
qed

theorem build_raises_outside_try_witness:
  "raised (build faulty_connection example_tables example_schemas
             (init example_config example_v1 ''db'')) = None \<and>
   (case map_of example_tables (database (init example_config example_v1 ''db'')) of
      None \<Rightarrow> True
    | Some schemas \<Rightarrow>
        \<not> schemas_declared undeclared_schemas
             (database (init example_config example_v1 ''db'')) schemas) \<and>
   raised (build faulty_connection example_tables undeclared_schemas
             (init example_config example_v1 ''db'')) = Some (KeyError ''ext_schema'')"
proof -
  let ?self = "init example_config example_v1 ''db''"
  have temp: "raised (resolve_temp_tables faulty_connection ?self) = None"
    by (simp add: raised_resolve_temp_tables init_def example_v1_def)
  have rename: "raised (table_rename_lineage faulty_connection ?self) = None"
    by (simp add: raised_table_rename_lineage init_def example_v1_def)
  have good: "raised (process_external_tables example_tables example_schemas ?self) = None"
    by (simp add: process_external_tables_def example_tables_def example_schemas_def
          init_def Let_def)
  have bad: "raised (process_external_tables example_tables undeclared_schemas ?self) =
      Some (KeyError ''ext_schema'')"
    by (simp add: process_external_tables_def example_tables_def undeclared_schemas_def
          init_def Let_def)
  have undeclared: "case map_of example_tables (database ?self) of
      None \<Rightarrow> True
    | Some schemas \<Rightarrow> \<not> schemas_declared undeclared_schemas (database ?self) schemas"
    by (simp add: init_def example_ext_lookup schemas_declared_def is_external_def
          undeclared_schemas_def)
  show ?thesis
    using build_raises_outside_try [of faulty_connection example_tables example_schemas ?self]
      build_raises_outside_try [of faulty_connection example_tables undeclared_schemas ?self]
      undeclared
    by (simp only: temp rename good bad option.case)
qed

subsection \<open>C4: rows that lack a field\<close>

text \<open>
  C4, as stated, fails for the scan-based classifier: a scan row whose target resolves and
  whose query text is missing fails the assertion of \<open>_process_stl_scan_lineage\<close>.
\<close>

theorem scan_missing_ddl_counterexample:
  "ddl (scan_row\<lparr>ddl := None\<rparr>) = None \<and>
   raised (process_stl_scan_lineage example_self (scan_row\<lparr>ddl := None\<rparr>)) =
     Some (AssertionError ''stl scan entry is missing query text'')"
  by (simp add: process_stl_scan_lineage_def raised_def make_filtered_target_def
        known_urns_example example_self_sel example_config_sel scan_row_def py_str_def
        create_from_ids_def)

text \<open>
  C4, amended: a row with no query text is skipped by the observed-query and view
  classifiers; a row whose target does not resolve is skipped by the view, scan and copy
  classifiers; a copy row for which the storage resolver yields no source, or whose target
  schema or table is null or empty, is skipped; an unload row for which the output resolver
  yields nothing, or whose source schema or table is null or empty, is skipped: in each case
  the object is unchanged and nothing is raised. A scan row whose target resolves and whose
  query text is null or empty adds no fact and raises \<open>AssertionError\<close>.
\<close>

theorem missing_field_rows:
  "(ddl lineage_row = None \<longrightarrow> process_sql_parser_lineage self lineage_row = Inr self) \<and>
   (ddl lineage_row = None \<longrightarrow> process_view_lineage self lineage_row = Inr self) \<and>
   (make_filtered_target self lineage_row = None \<longrightarrow>
      process_view_lineage self lineage_row = Inr self \<and>
      process_stl_scan_lineage self lineage_row = Inr self \<and>
      process_copy_command self lineage_row = Inr self) \<and>
   (get_sources (lineage_v1 self) COPY (database self) None None None (filename lineage_row) = []
      \<longrightarrow> process_copy_command self lineage_row = Inr self) \<and>
   (falsy (target_schema lineage_row) \<or> falsy (target_table lineage_row) \<longrightarrow>
      process_copy_command self lineage_row = Inr self) \<and>
   (get_target_lineage (lineage_v1 self) (database self) lineage_row UNLOAD = None \<longrightarrow>
      process_unload_command self lineage_row = Inr self) \<and>
   (falsy (source_schema lineage_row) \<or> falsy (source_table lineage_row) \<longrightarrow>
      process_unload_command self lineage_row = Inr self) \<and>
   (make_filtered_target self lineage_row \<noteq> None \<and> falsy (ddl lineage_row) \<longrightarrow>
      process_stl_scan_lineage self lineage_row =
        Inl (AssertionError ''stl scan entry is missing query text'', self))"
  by (auto simp: process_sql_parser_lineage_def process_view_lineage_def
        process_stl_scan_lineage_def process_copy_command_def process_unload_command_def
        falsy_def split: option.splits list.splits)

theorem missing_field_rows_witness:
  "ddl empty_row = None \<and> make_filtered_target example_self empty_row = None \<and>
   get_sources (lineage_v1 example_self) COPY (database example_self) None None None
     (filename empty_row) = [] \<and>
   falsy (target_schema empty_row) \<and> falsy (source_schema empty_row) \<and>
   get_target_lineage (lineage_v1 example_self) (database example_self) empty_row UNLOAD = None \<and>
   process_sql_parser_lineage example_self empty_row = Inr example_self \<and>
   process_view_lineage example_self empty_row = Inr example_self \<and>
   process_stl_scan_lineage example_self empty_row = Inr example_self \<and>
   process_copy_command example_self empty_row = Inr example_self \<and>
   process_unload_command example_self empty_row = Inr example_self \<and>
   make_filtered_target example_self (scan_row\<lparr>ddl := None\<rparr>) \<noteq> None \<and>
   falsy (ddl (scan_row\<lparr>ddl := None\<rparr>)) \<and>
   process_stl_scan_lineage example_self (scan_row\<lparr>ddl := None\<rparr>) =
     Inl (AssertionError ''stl scan entry is missing query text'', example_self)"
proof -
  have a: "ddl empty_row = None" "falsy (target_schema empty_row)"
    "falsy (source_schema empty_row)"
    by (simp_all add: empty_row_def falsy_def)
  have b: "get_sources (lineage_v1 example_self) COPY (database example_self) None None None
     (filename empty_row) = []"
    "get_target_lineage (lineage_v1 example_self) (database example_self) empty_row UNLOAD = None"
    by (simp_all add: empty_row_def example_self_sel example_v1_def)
  have c: "make_filtered_target example_self (scan_row\<lparr>ddl := None\<rparr>) \<noteq> None"
    "falsy (ddl (scan_row\<lparr>ddl := None\<rparr>))"
    using mft_example by (simp_all add: make_filtered_target_def falsy_def)
  show ?thesis
    using missing_field_rows [of empty_row example_self]
      missing_field_rows [of "scan_row\<lparr>ddl := None\<rparr>" example_self]
    by (simp only: a b c mft_empty_row) simp
qed

subsection \<open>C5: the target resolver\<close>

text \<open>
  C5, as stated, fails: the claim says that \<open>_make_filtered_target\<close> returns \<open>None\<close> whenever
  the row's target schema or target table is empty or null. The method has no such check; a
  null schema is printed as the word None, and with a catalog whose schema is named None the
  row resolves.
\<close>

theorem make_filtered_target_null_counterexample:
  "falsy (target_schema (scan_row\<lparr>target_schema := None\<rparr>)) \<and>
   make_filtered_target
     (example_self\<lparr>known_urns := build_known_urns example_self
         [(''db'', [(''None'', [\<lparr>name = ''orders'', table_type = ''TABLE''\<rparr>])])]\<rparr>)
     (scan_row\<lparr>target_schema := None\<rparr>)
   = Some (DatasetUrn ''redshift'' ''db.None.orders'' ''PROD'' None)"
  by (simp add: make_filtered_target_def build_known_urns_def example_self_sel
        example_config_sel scan_row_def py_str_def falsy_def create_from_ids_def)

text \<open>
  C5, amended: \<open>_make_filtered_target\<close> never raises; it returns \<open>None\<close> exactly when the
  identifier built from the run's database and the row's target schema and table, as an
  f-string prints them, is not in the registry, and that identifier otherwise. In
  particular it returns \<open>None\<close> for every identifier absent from the registry.
\<close>

theorem make_filtered_target_registry:
  "make_filtered_target self lineage_row =
     (if create_from_ids (platform self)
           (database self @ ''.'' @ py_str (target_schema lineage_row) @ ''.'' @
             py_str (target_table lineage_row))
           (env (config self)) (platform_instance (config self)) \<in> known_urns self
      then Some (create_from_ids (platform self)
           (database self @ ''.'' @ py_str (target_schema lineage_row) @ ''.'' @
             py_str (target_table lineage_row))
           (env (config self)) (platform_instance (config self)))
      else None)"
  by (simp add: make_filtered_target_def Let_def)

theorem make_filtered_target_registry_witness:
  "make_filtered_target example_self scan_row =
     Some (DatasetUrn ''redshift'' ''db.public.orders'' ''PROD'' None)
   \<and> make_filtered_target example_self (scan_row\<lparr>target_table := Some ''scratch_tmp''\<rparr>) = None"
  using make_filtered_target_registry [of example_self scan_row]
    make_filtered_target_registry [of example_self "scan_row\<lparr>target_table := Some ''scratch_tmp''\<rparr>"]
  by (simp add: known_urns_example scan_row_def py_str_def create_from_ids_def)
    (simp add: example_self_def init_def example_config_def)

subsection \<open>C6: the scan-based classifier\<close>

text \<open>
  C6: a scan row whose target resolves to a registry member and whose query text is present
  makes \<open>_process_stl_scan_lineage\<close> add exactly one known edge, from the source identifier
  (built from the row's source schema and table, with no registry check) to the resolved
  target, with the row's query text and timestamp and \<open>merge_lineage=True\<close>.
\<close>

theorem scan_emits_one_merged_edge:
  assumes "make_filtered_target self lineage_row = Some target"
    and "ddl lineage_row = Some q" and "q \<noteq> []"
  shows "process_stl_scan_lineage self lineage_row =
     Inr (self\<lparr>aggregator := aggregator self @
        [KnownQueryLineage q target
           [create_from_ids (platform self)
              (database self @ ''.'' @ py_str (source_schema lineage_row) @ ''.'' @
                py_str (source_table lineage_row))
              (env (config self)) (platform_instance (config self))]
           (timestamp lineage_row) True]\<rparr>)"
  using assms by (simp add: process_stl_scan_lineage_def add_known_query_lineage_def)

text \<open>The scenario of the spec: registry \<open>{orders, customers}\<close>, row customers to orders.\<close>

theorem scan_emits_one_merged_edge_witness:
  "make_filtered_target example_self scan_row =
     Some (DatasetUrn ''redshift'' ''db.public.orders'' ''PROD'' None) \<and>
   ddl scan_row = Some ''INSERT INTO orders SELECT * FROM customers'' \<and>
   ''INSERT INTO orders SELECT * FROM customers'' \<noteq> [] \<and>
   new_facts example_self (state_of (process_stl_scan_lineage example_self scan_row)) =
     [KnownQueryLineage ''INSERT INTO orders SELECT * FROM customers''
        (DatasetUrn ''redshift'' ''db.public.orders'' ''PROD'' None)
        [DatasetUrn ''redshift'' ''db.public.customers'' ''PROD'' None] (Some 7) True]"
proof -
  have d: "ddl scan_row = Some ''INSERT INTO orders SELECT * FROM customers''"
    by (simp add: scan_row_def)
  have n: "''INSERT INTO orders SELECT * FROM customers'' \<noteq> []" by simp
  show ?thesis
    using scan_emits_one_merged_edge [OF mft_example d n]
    by (simp add: mft_example d new_facts_def state_of_def example_self_sel example_config_sel
          create_from_ids_def py_str_def) (simp add: scan_row_def)
qed

subsection \<open>C7: the unload classifier\<close>

text \<open>
  C7: \<open>_process_unload_command\<close> never raises, and adds one known edge (by
  \<open>add_known_lineage_mapping\<close>: no query text, no merge) from the source identifier to the
  output identifier exactly when the output resolver yields an identifier, the row's source
  schema and table are both non-empty, and the source identifier is in \<open>known_urns\<close>;
  otherwise the object is unchanged.
\<close>

theorem unload_emits_iff:
  "process_unload_command self lineage_row =
     Inr (case get_target_lineage (lineage_v1 self) (database self) lineage_row UNLOAD of
            None \<Rightarrow> self
          | Some output_urn \<Rightarrow>
              if \<not> falsy (source_schema lineage_row) \<and> \<not> falsy (source_table lineage_row) \<and>
                 create_from_ids (platform self)
                   (database self @ ''.'' @ py_str (source_schema lineage_row) @ ''.'' @
                     py_str (source_table lineage_row))
                   (env (config self)) (platform_instance (config self)) \<in> known_urns self
              then self\<lparr>aggregator := aggregator self @
                     [KnownLineageMapping
                        (create_from_ids (platform self)
                           (database self @ ''.'' @ py_str (source_schema lineage_row) @ ''.'' @
                             py_str (source_table lineage_row))
                           (env (config self)) (platform_instance (config self)))
                        output_urn]\<rparr>
              else self)"
  by (simp add: process_unload_command_def add_known_lineage_mapping_def Let_def
        split: option.splits)

theorem unload_emits_iff_witness:
  "new_facts example_self (state_of (process_unload_command example_self unload_row)) =
     [KnownLineageMapping (DatasetUrn ''redshift'' ''db.public.orders'' ''PROD'' None)
        (DatasetUrn ''s3'' ''s3://bucket/out/'' ''PROD'' None)]
   \<and> new_facts example_self (state_of (process_unload_command example_self
        (unload_row\<lparr>source_table := Some ''scratch_tmp''\<rparr>))) = []
   \<and> new_facts example_self (state_of (process_unload_command example_self
        (unload_row\<lparr>source_schema := None\<rparr>))) = []
   \<and> new_facts example_self (state_of (process_unload_command example_self
        (unload_row\<lparr>filename := None\<rparr>))) = []"
  using unload_emits_iff [of example_self unload_row]
    unload_emits_iff [of example_self "unload_row\<lparr>source_table := Some ''scratch_tmp''\<rparr>"]
    unload_emits_iff [of example_self "unload_row\<lparr>source_schema := None\<rparr>"]
    unload_emits_iff [of example_self "unload_row\<lparr>filename := None\<rparr>"]
  by (simp add: state_of_def new_facts_def example_self_sel example_config_sel
        known_urns_example create_from_ids_def py_str_def falsy_def example_v1_def
        unload_row_def)

subsection \<open>C8: external tables\<close>



subsection \<open>C9: the observed-query classifier\<close>

text \<open>
  C9, as stated, fails: the classifier tests \<open>ddl is None\<close>, so a row whose query text is the
  empty string does add an observed query.
\<close>

theorem observed_query_empty_text_counterexample:
  "falsy (ddl (scan_row\<lparr>ddl := Some ''''\<rparr>)) \<and>
   new_facts example_self
     (state_of (process_sql_parser_lineage example_self (scan_row\<lparr>ddl := Some ''''\<rparr>))) =
     [ObservedQuery '''' ''db'' ''public'' None (Some 7) False]"
  by (simp add: process_sql_parser_lineage_def falsy_def state_of_def scan_row_def
        example_self_sel example_config_sel)

text \<open>
  C9, amended: \<open>_process_sql_parser_lineage\<close> never raises and adds an observed query
  exactly when the row's query text is not null; the fact carries that text, the run's
  database and default schema, the row's session id and timestamp, and is not marked as a
  known temp table; the registry plays no part.
\<close>

theorem observed_query_iff_ddl_present:
  "process_sql_parser_lineage self lineage_row =
     Inr (case ddl lineage_row of
            None \<Rightarrow> self
          | Some q \<Rightarrow>
              self\<lparr>aggregator := aggregator self @
                [ObservedQuery q (database self) (default_schema (config self))
                   (session_id lineage_row) (timestamp lineage_row) False]\<rparr>)
   \<and> row_output process_sql_parser_lineage (self\<lparr>known_urns := registry\<rparr>) lineage_row =
       row_output process_sql_parser_lineage self lineage_row"
  by (simp add: process_sql_parser_lineage_def add_observed_query_def row_output_def
        new_facts_def split: option.splits)

theorem observed_query_iff_ddl_present_witness:
  "new_facts example_self (state_of (process_sql_parser_lineage example_self scan_row)) =
     [ObservedQuery ''INSERT INTO orders SELECT * FROM customers'' ''db'' ''public'' None
        (Some 7) False]
   \<and> new_facts example_self (state_of (process_sql_parser_lineage example_self copy_row)) = []"
  using observed_query_iff_ddl_present [of example_self scan_row "{}"]
    observed_query_iff_ddl_present [of example_self copy_row "{}"]
  by (simp add: state_of_def new_facts_def example_self_sel example_config_sel
        scan_row_def copy_row_def)

subsection \<open>C10: identifiers are built in the run's database\<close>

text \<open>
  C10, as stated, fails: the claim says that no row can cause a fact that references a
  database other than the run's. The name of an identifier is one dotted string. In a run
  on \<open>db\<close> whose catalog also holds a database \<open>db.x\<close> with the table \<open>y.z\<close>, a scan row
  with target schema \<open>x.y\<close> and table \<open>z\<close> adds an edge whose downstream is the registry
  identifier of that table of \<open>db.x\<close>, and of no table of \<open>db\<close>.
\<close>

theorem row_names_other_database_counterexample:
  "database (example_self\<lparr>known_urns := build_known_urns example_self dotted_tables\<rparr>) = ''db'' \<and>
   new_facts (example_self\<lparr>known_urns := build_known_urns example_self dotted_tables\<rparr>)
     (state_of (process_stl_scan_lineage
        (example_self\<lparr>known_urns := build_known_urns example_self dotted_tables\<rparr>) dotted_row)) =
     [KnownQueryLineage ''INSERT INTO z SELECT * FROM customers''
        (DatasetUrn ''redshift'' ''db.x.y.z'' ''PROD'' None)
        [DatasetUrn ''redshift'' ''db.public.customers'' ''PROD'' None] (Some 7) True] \<and>
   DatasetUrn ''redshift'' ''db.x.y.z'' ''PROD'' None
     \<in> build_known_urns example_self
         [(''db.x'', [(''y'', [\<lparr>name = ''z'', table_type = ''TABLE''\<rparr>])])] \<and>
   DatasetUrn ''redshift'' ''db.x.y.z'' ''PROD'' None
     \<notin> build_known_urns example_self
         [(''db'', [(''public'', [\<lparr>name = ''orders'', table_type = ''TABLE''\<rparr>,
                                   \<lparr>name = ''customers'', table_type = ''TABLE''\<rparr>])])]"
  by (simp add: process_stl_scan_lineage_def make_filtered_target_def build_known_urns_def
        dotted_tables_def dotted_row_def example_self_sel example_config_sel py_str_def
        create_from_ids_def add_known_query_lineage_def new_facts_def Let_def)

text \<open>
  C10, amended: in every fact that the scan, view, copy and unload classifiers add for a
  row, the identifiers that the classifier builds (scan source and target, view target, copy
  target, unload source) are \<open>run_database_urn\<close> of the row's schema and table: the name is
  the run's database, a dot, the schema, a dot and the table, as an f-string prints them,
  and so starts with the run's database and a dot whatever the row holds.
\<close>

theorem built_identifiers_in_run_database:
  "list_all (scan_fact_built self lineage_row)
     (new_facts self (state_of (process_stl_scan_lineage self lineage_row))) \<and>
   list_all (view_fact_built self lineage_row)
     (new_facts self (state_of (process_view_lineage self lineage_row))) \<and>
   list_all (copy_fact_built self lineage_row)
     (new_facts self (state_of (process_copy_command self lineage_row))) \<and>
   list_all (unload_fact_built self lineage_row)
     (new_facts self (state_of (process_unload_command self lineage_row))) \<and>
   prefix (database self @ ''.'') (urn_name (run_database_urn self sch tbl))"
proof -
  have scan: "list_all (scan_fact_built self lineage_row)
     (new_facts self (state_of (process_stl_scan_lineage self lineage_row)))"
    by (auto simp: process_stl_scan_lineage_def scan_fact_built_def Let_def
          run_database_urn_def
          dest: make_filtered_target_run_database split: option.splits)
  have view: "list_all (view_fact_built self lineage_row)
     (new_facts self (state_of (process_view_lineage self lineage_row)))"
    by (auto simp: process_view_lineage_def view_fact_built_def run_database_urn_def
          dest: make_filtered_target_run_database split: option.splits)
  have copy: "list_all (copy_fact_built self lineage_row)
     (new_facts self (state_of (process_copy_command self lineage_row)))"
    by (auto simp: process_copy_command_def copy_fact_built_def run_database_urn_def
          dest: make_filtered_target_run_database split: option.splits list.splits)
  have unload: "list_all (unload_fact_built self lineage_row)
     (new_facts self (state_of (process_unload_command self lineage_row)))"
    by (auto simp: process_unload_command_def unload_fact_built_def Let_def
          run_database_urn_def split: option.splits)
  have start: "prefix (database self @ ''.'') (urn_name (run_database_urn self sch tbl))"
    by (simp add: run_database_urn_def create_from_ids_def)
  show ?thesis using scan view copy unload start by simp
qed


theorem built_identifiers_in_run_database_witness:
  "list_all (scan_fact_built example_self scan_row)
     [KnownQueryLineage ''INSERT INTO orders SELECT * FROM customers''
        (DatasetUrn ''redshift'' ''db.public.orders'' ''PROD'' None)
        [DatasetUrn ''redshift'' ''db.public.customers'' ''PROD'' None] (Some 7) True] \<and>
   list_all (view_fact_built example_self scan_row)
     [ViewDefinition (DatasetUrn ''redshift'' ''db.public.orders'' ''PROD'' None)
        ''INSERT INTO orders SELECT * FROM customers'' ''db'' ''public''] \<and>
   list_all (copy_fact_built example_self copy_row)
     [KnownLineageMapping (DatasetUrn ''s3'' ''s3://bucket/file.csv'' ''PROD'' None)
        (DatasetUrn ''redshift'' ''db.public.orders'' ''PROD'' None)] \<and>
   list_all (unload_fact_built example_self unload_row)
     [KnownLineageMapping (DatasetUrn ''redshift'' ''db.public.orders'' ''PROD'' None)
        (DatasetUrn ''s3'' ''s3://bucket/out/'' ''PROD'' None)] \<and>
   run_database_urn example_self (Some ''public'') (Some ''orders'') =
     DatasetUrn ''redshift'' ''db.public.orders'' ''PROD'' None \<and>
   prefix ''db.'' ''db.public.orders''"
proof -
  have view: "new_facts example_self (state_of (process_view_lineage example_self scan_row)) =
     [ViewDefinition (DatasetUrn ''redshift'' ''db.public.orders'' ''PROD'' None)
        ''INSERT INTO orders SELECT * FROM customers'' ''db'' ''public'']"
    by (simp add: process_view_lineage_def mft_example scan_row_sel example_self_sel
          example_config_sel)
  have unload: "new_facts example_self (state_of (process_unload_command example_self unload_row)) =
     [KnownLineageMapping (DatasetUrn ''redshift'' ''db.public.orders'' ''PROD'' None)
        (DatasetUrn ''s3'' ''s3://bucket/out/'' ''PROD'' None)]"
    by (simp add: process_unload_command_def known_urns_example
          example_self_sel example_config_sel example_v1_def create_from_ids_def py_str_def
          falsy_def unload_row_def)
  have urn: "run_database_urn example_self (Some ''public'') (Some ''orders'') =
     DatasetUrn ''redshift'' ''db.public.orders'' ''PROD'' None"
    by (simp add: run_database_urn_def example_self_sel example_config_sel py_str_def
          create_from_ids_def)
  have start: "prefix (database example_self @ ''.'') (urn_name (DatasetUrn ''redshift'' ''db.public.orders'' ''PROD'' None))
      = prefix ''db.'' ''db.public.orders''"
    by (simp add: example_self_sel)
  show ?thesis
    using built_identifiers_in_run_database [of example_self scan_row "Some ''public''" "Some ''orders''"]
      built_identifiers_in_run_database [of example_self copy_row "Some ''public''" "Some ''orders''"]
      built_identifiers_in_run_database [of example_self unload_row "Some ''public''" "Some ''orders''"]
    unfolding scan_example view copy_example unload urn start by blast
qed

end
